theory Spec2Isabelle
  imports Complex_Main "HOL-Library.Multiset"
begin

section \<open>The network store of the visualizer (src/store/networkStore.ts)\<close>

text \<open>
  The store is a single state object and a set of actions on it. Each action is modelled as
  a function from the store before the call to the store after it. What the source draws
  from the clock and from \<^verbatim>\<open>Math.random\<close> is an explicit argument: \<open>gen\<close> gives
  the layer id produced by the \<open>k\<close>-th call of \<^verbatim>\<open>generateLayerId\<close> within an action,
  \<open>rnd\<close> the result of the \<open>k\<close>-th call of \<^verbatim>\<open>Math.random\<close>. Nothing is assumed
  about either, so ids are not assumed to be distinct.

  JavaScript numbers are modelled as exact rationals: rounding, \<^verbatim>\<open>NaN\<close> and the
  infinities of IEEE doubles are outside the model. Array indices passed to an action are
  integers.
\<close>

subsection \<open>Data model\<close>

type_synonym number = rat

text \<open>A parameter value: \<^verbatim>\<open>number | string | boolean | number[]\<close>.\<close>

datatype pvalue = Num number | Str string | Bool bool | NumArr "number list"

text \<open>
  \<^verbatim>\<open>Record<string, ...>\<close>: a finite map from keys to values; a key that is absent reads
  as \<^verbatim>\<open>undefined\<close>, here \<open>None\<close>. The object spread \<^verbatim>\<open>{ ...a, ...b }\<close> is
  \<open>a ++ b\<close>.
\<close>

type_synonym Params = "string \<rightharpoonup> pvalue"

datatype LayerType =
  Input | Dense | Conv2d | Maxpool2d | Avgpool2d | Flatten | Dropout | Batchnorm
  | Lstm | Gru | Embedding | Attention | Output

text \<open>
  \<^verbatim>\<open>ArchitectureType\<close> is a union of eight string literals in the source, but
  \<^verbatim>\<open>loadTemplate\<close> stores \<^verbatim>\<open>template.id as ArchitectureType\<close>, any string; so
  the field holds a string.
\<close>

type_synonym ArchitectureType = string

record Position =
  x :: number
  y :: number
  z :: number

record LayerConfig =
  type :: LayerType
  params :: Params

text \<open>Of a template the store reads \<^verbatim>\<open>id\<close> and \<^verbatim>\<open>layers\<close>; the descriptive fields
  (description, use case, difficulty) are left out.\<close>

record ArchitectureTemplate =
  id :: string
  name :: string
  layers :: "LayerConfig list"

text \<open>
  \<^verbatim>\<open>neurons\<close> is declared \<^verbatim>\<open>number | undefined\<close>, but it is filled from
  \<^verbatim>\<open>params.units as number\<close>, a cast that checks nothing; it holds whatever value
  the parameter map had.
\<close>

record NetworkLayer =
  id :: string
  type :: LayerType
  name :: string
  params :: Params
  position :: Position
  neurons :: "pvalue option"
  shape :: "number list option"

record NetworkConnection =
  id :: string
  fromLayerId :: string
  toLayerId :: string
  weight :: "number option"
  isActive :: "bool option"

record TrainingState =
  isTraining :: bool
  currentEpoch :: number
  totalEpochs :: number
  loss :: number
  accuracy :: number
  lossHistory :: "number list"
  accuracyHistory :: "number list"

datatype ViewMode = View3d | View2d

record VisualizationState =
  showDataFlow :: bool
  showWeights :: bool
  showGradients :: bool
  animationSpeed :: number
  selectedLayerId :: "string option"
  hoveredLayerId :: "string option"
  viewMode :: ViewMode
  cameraPosition :: Position

datatype Optimizer = Sgd | Adam | Momentum

datatype LossFunction = Mse | Binary_crossentropy | Categorical_crossentropy

record NetworkConfig =
  learningRate :: number
  batchSize :: number
  epochs :: number
  optimizer :: Optimizer
  lossFunction :: LossFunction

datatype PanelTab = Parameters | Code | Theory

datatype Theme = Dark | Light | Midnight | Ocean

record UIState =
  leftPanelOpen :: bool
  rightPanelOpen :: bool
  rightPanelTab :: PanelTab
  isTourActive :: bool
  currentTourStep :: number
  theme :: Theme

record NetworkStore =
  currentArchitecture :: ArchitectureType
  layers :: "NetworkLayer list"
  connections :: "NetworkConnection list"
  training :: TrainingState
  config :: NetworkConfig
  visualization :: VisualizationState
  ui :: UIState

subsection \<open>The template registry (src/data/curriculum.ts)\<close>

definition architectureTemplates :: "ArchitectureTemplate list" where
  "architectureTemplates =
    [ \<lparr> ArchitectureTemplate.id = ''perceptron'',
        ArchitectureTemplate.name = ''Simple Perceptron'',
        ArchitectureTemplate.layers =
          [ \<lparr> LayerConfig.type = Input, LayerConfig.params = [''shape'' \<mapsto> NumArr [2]] \<rparr>,
            \<lparr> LayerConfig.type = Dense,
              LayerConfig.params = [''units'' \<mapsto> Num 1, ''activation'' \<mapsto> Str ''sigmoid''] \<rparr> ] \<rparr>,
      \<lparr> ArchitectureTemplate.id = ''mlp'',
        ArchitectureTemplate.name = ''Multi-Layer Perceptron (MLP)'',
        ArchitectureTemplate.layers =
          [ \<lparr> LayerConfig.type = Input, LayerConfig.params = [''shape'' \<mapsto> NumArr [10]] \<rparr>,
            \<lparr> LayerConfig.type = Dense,
              LayerConfig.params = [''units'' \<mapsto> Num 64, ''activation'' \<mapsto> Str ''relu''] \<rparr>,
            \<lparr> LayerConfig.type = Dense,
              LayerConfig.params = [''units'' \<mapsto> Num 32, ''activation'' \<mapsto> Str ''relu''] \<rparr>,
            \<lparr> LayerConfig.type = Dense,
              LayerConfig.params = [''units'' \<mapsto> Num 1, ''activation'' \<mapsto> Str ''sigmoid''] \<rparr> ] \<rparr>,
      \<lparr> ArchitectureTemplate.id = ''cnn'',
        ArchitectureTemplate.name = ''Convolutional Neural Network (CNN)'',
        ArchitectureTemplate.layers =
          [ \<lparr> LayerConfig.type = Input, LayerConfig.params = [''shape'' \<mapsto> NumArr [28, 28, 1]] \<rparr>,
            \<lparr> LayerConfig.type = Conv2d,
              LayerConfig.params =
                [''filters'' \<mapsto> Num 32, ''kernel_size'' \<mapsto> Num 3, ''activation'' \<mapsto> Str ''relu''] \<rparr>,
            \<lparr> LayerConfig.type = Maxpool2d, LayerConfig.params = [''pool_size'' \<mapsto> Num 2] \<rparr>,
            \<lparr> LayerConfig.type = Conv2d,
              LayerConfig.params =
                [''filters'' \<mapsto> Num 64, ''kernel_size'' \<mapsto> Num 3, ''activation'' \<mapsto> Str ''relu''] \<rparr>,
            \<lparr> LayerConfig.type = Maxpool2d, LayerConfig.params = [''pool_size'' \<mapsto> Num 2] \<rparr>,
            \<lparr> LayerConfig.type = Flatten, LayerConfig.params = Map.empty \<rparr>,
            \<lparr> LayerConfig.type = Dense,
              LayerConfig.params = [''units'' \<mapsto> Num 128, ''activation'' \<mapsto> Str ''relu''] \<rparr>,
            \<lparr> LayerConfig.type = Dropout, LayerConfig.params = [''rate'' \<mapsto> Num (1 / 2)] \<rparr>,
            \<lparr> LayerConfig.type = Dense,
              LayerConfig.params = [''units'' \<mapsto> Num 10, ''activation'' \<mapsto> Str ''softmax''] \<rparr> ] \<rparr>,
      \<lparr> ArchitectureTemplate.id = ''rnn'',
        ArchitectureTemplate.name = ''Recurrent Neural Network (RNN/LSTM)'',
        ArchitectureTemplate.layers =
          [ \<lparr> LayerConfig.type = Input, LayerConfig.params = [''shape'' \<mapsto> NumArr [100]] \<rparr>,
            \<lparr> LayerConfig.type = Embedding,
              LayerConfig.params = [''input_dim'' \<mapsto> Num 10000, ''output_dim'' \<mapsto> Num 128] \<rparr>,
            \<lparr> LayerConfig.type = Lstm,
              LayerConfig.params = [''units'' \<mapsto> Num 64, ''return_sequences'' \<mapsto> Bool True] \<rparr>,
            \<lparr> LayerConfig.type = Lstm,
              LayerConfig.params = [''units'' \<mapsto> Num 32, ''return_sequences'' \<mapsto> Bool False] \<rparr>,
            \<lparr> LayerConfig.type = Dense,
              LayerConfig.params = [''units'' \<mapsto> Num 1, ''activation'' \<mapsto> Str ''sigmoid''] \<rparr> ] \<rparr>,
      \<lparr> ArchitectureTemplate.id = ''autoencoder'',
        ArchitectureTemplate.name = ''Autoencoder'',
        ArchitectureTemplate.layers =
          [ \<lparr> LayerConfig.type = Input, LayerConfig.params = [''shape'' \<mapsto> NumArr [784]] \<rparr>,
            \<lparr> LayerConfig.type = Dense,
              LayerConfig.params = [''units'' \<mapsto> Num 256, ''activation'' \<mapsto> Str ''relu''] \<rparr>,
            \<lparr> LayerConfig.type = Dense,
              LayerConfig.params = [''units'' \<mapsto> Num 64, ''activation'' \<mapsto> Str ''relu''] \<rparr>,
            \<lparr> LayerConfig.type = Dense,
              LayerConfig.params = [''units'' \<mapsto> Num 32, ''activation'' \<mapsto> Str ''relu''] \<rparr>,
            \<lparr> LayerConfig.type = Dense,
              LayerConfig.params = [''units'' \<mapsto> Num 64, ''activation'' \<mapsto> Str ''relu''] \<rparr>,
            \<lparr> LayerConfig.type = Dense,
              LayerConfig.params = [''units'' \<mapsto> Num 256, ''activation'' \<mapsto> Str ''relu''] \<rparr>,
            \<lparr> LayerConfig.type = Dense,
              LayerConfig.params = [''units'' \<mapsto> Num 784, ''activation'' \<mapsto> Str ''sigmoid''] \<rparr> ] \<rparr>,
      \<lparr> ArchitectureTemplate.id = ''transformer'',
        ArchitectureTemplate.name = ''Transformer'',
        ArchitectureTemplate.layers =
          [ \<lparr> LayerConfig.type = Input, LayerConfig.params = [''shape'' \<mapsto> NumArr [512]] \<rparr>,
            \<lparr> LayerConfig.type = Embedding,
              LayerConfig.params = [''input_dim'' \<mapsto> Num 30000, ''output_dim'' \<mapsto> Num 256] \<rparr>,
            \<lparr> LayerConfig.type = Attention,
              LayerConfig.params = [''heads'' \<mapsto> Num 8, ''key_dim'' \<mapsto> Num 64] \<rparr>,
            \<lparr> LayerConfig.type = Dense,
              LayerConfig.params = [''units'' \<mapsto> Num 512, ''activation'' \<mapsto> Str ''relu''] \<rparr>,
            \<lparr> LayerConfig.type = Attention,
              LayerConfig.params = [''heads'' \<mapsto> Num 8, ''key_dim'' \<mapsto> Num 64] \<rparr>,
            \<lparr> LayerConfig.type = Dense,
              LayerConfig.params = [''units'' \<mapsto> Num 512, ''activation'' \<mapsto> Str ''relu''] \<rparr>,
            \<lparr> LayerConfig.type = Dense,
              LayerConfig.params = [''units'' \<mapsto> Num 30000, ''activation'' \<mapsto> Str ''softmax''] \<rparr> ] \<rparr>,
      \<lparr> ArchitectureTemplate.id = ''gan'',
        ArchitectureTemplate.name = ''Generative Adversarial Network (GAN)'',
        ArchitectureTemplate.layers =
          [ \<lparr> LayerConfig.type = Input, LayerConfig.params = [''shape'' \<mapsto> NumArr [100]] \<rparr>,
            \<lparr> LayerConfig.type = Dense,
              LayerConfig.params = [''units'' \<mapsto> Num 256, ''activation'' \<mapsto> Str ''relu''] \<rparr>,
            \<lparr> LayerConfig.type = Batchnorm, LayerConfig.params = [''momentum'' \<mapsto> Num (4 / 5)] \<rparr>,
            \<lparr> LayerConfig.type = Dense,
              LayerConfig.params = [''units'' \<mapsto> Num 512, ''activation'' \<mapsto> Str ''relu''] \<rparr>,
            \<lparr> LayerConfig.type = Batchnorm, LayerConfig.params = [''momentum'' \<mapsto> Num (4 / 5)] \<rparr>,
            \<lparr> LayerConfig.type = Dense,
              LayerConfig.params = [''units'' \<mapsto> Num 1024, ''activation'' \<mapsto> Str ''relu''] \<rparr>,
            \<lparr> LayerConfig.type = Dense,
              LayerConfig.params = [''units'' \<mapsto> Num 784, ''activation'' \<mapsto> Str ''tanh''] \<rparr> ] \<rparr> ]"

subsection \<open>Helper functions\<close>

text \<open>
  The \<^verbatim>\<open>default\<close> branch of the \<^verbatim>\<open>switch\<close> in \<^verbatim>\<open>getDefaultParams\<close> and the
  fallback \<^verbatim>\<open>names[type] || type\<close> in \<^verbatim>\<open>getLayerName\<close> are for values outside
  \<^verbatim>\<open>LayerType\<close>; on its thirteen members each function has an entry, and every name is a
  non-empty string.
\<close>

fun getDefaultParams :: "LayerType \<Rightarrow> Params" where
  "getDefaultParams Dense = [''units'' \<mapsto> Num 64, ''activation'' \<mapsto> Str ''relu'']"
| "getDefaultParams Conv2d =
     [''filters'' \<mapsto> Num 32, ''kernel_size'' \<mapsto> Num 3, ''strides'' \<mapsto> Num 1,
      ''padding'' \<mapsto> Str ''same'', ''activation'' \<mapsto> Str ''relu'']"
| "getDefaultParams Maxpool2d = [''pool_size'' \<mapsto> Num 2, ''strides'' \<mapsto> Num 2]"
| "getDefaultParams Avgpool2d = [''pool_size'' \<mapsto> Num 2, ''strides'' \<mapsto> Num 2]"
| "getDefaultParams Flatten = Map.empty"
| "getDefaultParams Dropout = [''rate'' \<mapsto> Num (1 / 2)]"
| "getDefaultParams Batchnorm = [''momentum'' \<mapsto> Num (99 / 100)]"
| "getDefaultParams Lstm = [''units'' \<mapsto> Num 128, ''return_sequences'' \<mapsto> Bool False]"
| "getDefaultParams Gru = [''units'' \<mapsto> Num 128, ''return_sequences'' \<mapsto> Bool False]"
| "getDefaultParams Embedding = [''input_dim'' \<mapsto> Num 10000, ''output_dim'' \<mapsto> Num 128]"
| "getDefaultParams Attention = [''heads'' \<mapsto> Num 8, ''key_dim'' \<mapsto> Num 64]"
| "getDefaultParams Input = [''shape'' \<mapsto> NumArr [28, 28, 1]]"
| "getDefaultParams Output = [''units'' \<mapsto> Num 10, ''activation'' \<mapsto> Str ''softmax'']"

fun getLayerName :: "LayerType \<Rightarrow> string" where
  "getLayerName Input = ''Input''"
| "getLayerName Dense = ''Dense''"
| "getLayerName Conv2d = ''Conv2D''"
| "getLayerName Maxpool2d = ''MaxPool2D''"
| "getLayerName Avgpool2d = ''AvgPool2D''"
| "getLayerName Flatten = ''Flatten''"
| "getLayerName Dropout = ''Dropout''"
| "getLayerName Batchnorm = ''BatchNorm''"
| "getLayerName Lstm = ''LSTM''"
| "getLayerName Gru = ''GRU''"
| "getLayerName Embedding = ''Embedding''"
| "getLayerName Attention = ''Attention''"
| "getLayerName Output = ''Output''"

definition calculateLayerPosition :: "number \<Rightarrow> number \<Rightarrow> Position" where
  "calculateLayerPosition index total' =
     (let spacing = 3;
          startX = - ((total' - 1) * spacing) / 2
      in \<lparr> x = startX + index * spacing, y = 0, z = 0 \<rparr>)"

text \<open>
  The loop \<^verbatim>\<open>for (let i = 0; i < layers.length - 1; i++)\<close>. For an empty array the bound
  is \<open>-1\<close> and the body never runs; the truncating subtraction on \<open>nat\<close> gives the same
  empty range. The weight is \<^verbatim>\<open>Math.random() * 2 - 1\<close>.
\<close>

definition generateConnections :: "(nat \<Rightarrow> number) \<Rightarrow> NetworkLayer list \<Rightarrow> NetworkConnection list" where
  "generateConnections rnd ls =
     map (\<lambda>i. \<lparr> NetworkConnection.id =
                   ''conn_'' @ NetworkLayer.id (ls ! i) @ ''_'' @ NetworkLayer.id (ls ! (i + 1)),
                 fromLayerId = NetworkLayer.id (ls ! i),
                 toLayerId = NetworkLayer.id (ls ! (i + 1)),
                 weight = Some (rnd i * 2 - 1),
                 isActive = Some False \<rparr>)
         [0 ..< length ls - 1]"

definition createLayersFromTemplate :: "(nat \<Rightarrow> string) \<Rightarrow> ArchitectureTemplate \<Rightarrow> NetworkLayer list" where
  "createLayersFromTemplate gen template =
     map (\<lambda>(index, layerConfig).
            \<lparr> NetworkLayer.id = gen index,
              NetworkLayer.type = LayerConfig.type layerConfig,
              NetworkLayer.name = getLayerName (LayerConfig.type layerConfig),
              NetworkLayer.params =
                getDefaultParams (LayerConfig.type layerConfig) ++ LayerConfig.params layerConfig,
              position = calculateLayerPosition (of_nat index)
                           (of_nat (length (ArchitectureTemplate.layers template))),
              neurons = (if LayerConfig.type layerConfig = Dense
                         then LayerConfig.params layerConfig ''units'' else None),
              shape = None \<rparr>)
         (enumerate 0 (ArchitectureTemplate.layers template))"

text \<open>
  The loop that follows every change of the layer array,
  \<^verbatim>\<open>newLayers.forEach((layer, index) => { layer.position = calculateLayerPosition(index, newLayers.length) })\<close>,
  when every element of the array is a layer.
\<close>

definition recalculatePositions :: "NetworkLayer list \<Rightarrow> NetworkLayer list" where
  "recalculatePositions newLayers =
     map (\<lambda>(index, layer).
            layer\<lparr> position := calculateLayerPosition (of_nat index) (of_nat (length newLayers)) \<rparr>)
         (enumerate 0 newLayers)"

text \<open>JavaScript truthiness of a parameter value, and \<^verbatim>\<open>a || b\<close>.\<close>

fun truthy :: "pvalue option \<Rightarrow> bool" where
  "truthy None = False"
| "truthy (Some (Num n)) = (n \<noteq> 0)"
| "truthy (Some (Str s)) = (s \<noteq> [])"
| "truthy (Some (Bool b)) = b"
| "truthy (Some (NumArr a)) = True"

definition jsOr :: "pvalue option \<Rightarrow> pvalue option \<Rightarrow> pvalue option" where
  "jsOr a b = (if truthy a then a else b)"

subsection \<open>Initial state\<close>

definition initialTemplate :: ArchitectureTemplate where
  "initialTemplate = the (find (\<lambda>t. ArchitectureTemplate.id t = ''mlp'') architectureTemplates)"

definition initialLayers :: "(nat \<Rightarrow> string) \<Rightarrow> NetworkLayer list" where
  "initialLayers gen = createLayersFromTemplate gen initialTemplate"

definition initialState :: "(nat \<Rightarrow> string) \<Rightarrow> (nat \<Rightarrow> number) \<Rightarrow> NetworkStore" where
  "initialState gen rnd =
     \<lparr> currentArchitecture = ''mlp'',
       NetworkStore.layers = initialLayers gen,
       connections = generateConnections rnd (initialLayers gen),
       training = \<lparr> isTraining = False, currentEpoch = 0, totalEpochs = 100, loss = 0,
                    accuracy = 0, lossHistory = [], accuracyHistory = [] \<rparr>,
       config = \<lparr> learningRate = 1 / 1000, batchSize = 32, epochs = 100, optimizer = Adam,
                  lossFunction = Categorical_crossentropy \<rparr>,
       visualization = \<lparr> showDataFlow = True, showWeights = False, showGradients = False,
                         animationSpeed = 1, selectedLayerId = None, hoveredLayerId = None,
                         viewMode = View3d, cameraPosition = \<lparr> x = 0, y = 5, z = 15 \<rparr> \<rparr>,
       ui = \<lparr> leftPanelOpen = True, rightPanelOpen = True, rightPanelTab = Parameters,
              isTourActive = False, currentTourStep = 0, theme = Dark \<rparr> \<rparr>"

subsection \<open>Tour actions\<close>

definition startTour :: "NetworkStore \<Rightarrow> NetworkStore" where
  "startTour state = state\<lparr> ui := (ui state)\<lparr> isTourActive := True, currentTourStep := 0 \<rparr> \<rparr>"

definition nextTourStep :: "NetworkStore \<Rightarrow> NetworkStore" where
  "nextTourStep state =
     state\<lparr> ui := (ui state)\<lparr> currentTourStep := currentTourStep (ui state) + 1 \<rparr> \<rparr>"

definition previousTourStep :: "NetworkStore \<Rightarrow> NetworkStore" where
  "previousTourStep state =
     state\<lparr> ui := (ui state)\<lparr> currentTourStep := max 0 (currentTourStep (ui state) - 1) \<rparr> \<rparr>"

definition endTour :: "NetworkStore \<Rightarrow> NetworkStore" where
  "endTour state = state\<lparr> ui := (ui state)\<lparr> isTourActive := False, currentTourStep := 0 \<rparr> \<rparr>"

datatype TourAction = StartTour | NextTourStep | PreviousTourStep | EndTour

fun runTour :: "NetworkStore \<Rightarrow> TourAction \<Rightarrow> NetworkStore" where
  "runTour state StartTour = startTour state"
| "runTour state NextTourStep = nextTourStep state"
| "runTour state PreviousTourStep = previousTourStep state"
| "runTour state EndTour = endTour state"

subsection \<open>Architecture actions\<close>

definition setArchitecture ::
  "(nat \<Rightarrow> string) \<Rightarrow> (nat \<Rightarrow> number) \<Rightarrow> ArchitectureType \<Rightarrow> NetworkStore \<Rightarrow> NetworkStore" where
  "setArchitecture gen rnd type' state =
     (case find (\<lambda>t. ArchitectureTemplate.id t = type') architectureTemplates of
        Some template \<Rightarrow>
          (let layers' = createLayersFromTemplate gen template
           in state\<lparr> currentArchitecture := type',
                     NetworkStore.layers := layers',
                     connections := generateConnections rnd layers' \<rparr>)
      | None \<Rightarrow> state)"

definition loadTemplate ::
  "(nat \<Rightarrow> string) \<Rightarrow> (nat \<Rightarrow> number) \<Rightarrow> ArchitectureTemplate \<Rightarrow> NetworkStore \<Rightarrow> NetworkStore" where
  "loadTemplate gen rnd template state =
     (let layers' = createLayersFromTemplate gen template
      in state\<lparr> currentArchitecture := ArchitectureTemplate.id template,
                NetworkStore.layers := layers',
                connections := generateConnections rnd layers' \<rparr>)"

text \<open>
  \<^verbatim>\<open>addLayer(type, params?)\<close>: an omitted \<open>params\<close> is \<open>None\<close>; spreading
  \<^verbatim>\<open>undefined\<close> adds no key and \<^verbatim>\<open>params?.units\<close> is then \<^verbatim>\<open>undefined\<close>.
  \<open>newId\<close> is the result of \<^verbatim>\<open>generateLayerId()\<close>.
\<close>

definition addLayer ::
  "string \<Rightarrow> (nat \<Rightarrow> number) \<Rightarrow> LayerType \<Rightarrow> Params option \<Rightarrow> NetworkStore \<Rightarrow> NetworkStore" where
  "addLayer newId rnd type' params' state =
     (let layers' = NetworkStore.layers state;
          newLayer =
            \<lparr> NetworkLayer.id = newId,
              NetworkLayer.type = type',
              NetworkLayer.name = getLayerName type',
              NetworkLayer.params =
                getDefaultParams type' ++ (case params' of None \<Rightarrow> Map.empty | Some p \<Rightarrow> p),
              position = calculateLayerPosition (of_nat (length layers')) (of_nat (length layers' + 1)),
              neurons = (if type' = Dense
                         then jsOr (case params' of None \<Rightarrow> None | Some p \<Rightarrow> p ''units'')
                                (Some (Num 64))
                         else None),
              shape = None \<rparr>;
          newLayers = recalculatePositions (layers' @ [newLayer])
      in state\<lparr> NetworkStore.layers := newLayers,
                connections := generateConnections rnd newLayers,
                currentArchitecture := ''custom'' \<rparr>)"

definition removeLayer :: "(nat \<Rightarrow> number) \<Rightarrow> string \<Rightarrow> NetworkStore \<Rightarrow> NetworkStore" where
  "removeLayer rnd layerId state =
     (let newLayers =
            recalculatePositions
              (filter (\<lambda>l. NetworkLayer.id l \<noteq> layerId) (NetworkStore.layers state))
      in state\<lparr> NetworkStore.layers := newLayers,
                connections := generateConnections rnd newLayers,
                currentArchitecture := ''custom'' \<rparr>)"

definition updateLayerParams :: "string \<Rightarrow> Params \<Rightarrow> NetworkStore \<Rightarrow> NetworkStore" where
  "updateLayerParams layerId params' state =
     state\<lparr> NetworkStore.layers :=
              map (\<lambda>layer.
                     if NetworkLayer.id layer = layerId
                     then layer\<lparr> NetworkLayer.params := NetworkLayer.params layer ++ params',
                                 neurons := jsOr (params' ''units'') (neurons layer) \<rparr>
                     else layer)
                  (NetworkStore.layers state) \<rparr>"

text \<open>
  \<^verbatim>\<open>Array.prototype.splice(start, deleteCount, ...items)\<close> for an integer \<open>start\<close>:
  a negative start counts from the end, and both the start and the delete count are clamped to
  the array. The result is the array of removed elements and the array after the call.
\<close>

definition actualStart :: "int \<Rightarrow> nat \<Rightarrow> nat" where
  "actualStart start len =
     (if start < 0 then nat (max (int len + start) 0) else min (nat start) len)"

definition arraySplice :: "'a list \<Rightarrow> int \<Rightarrow> nat \<Rightarrow> 'a list \<Rightarrow> 'a list \<times> 'a list" where
  "arraySplice arr start deleteCount items =
     (let len = length arr;
          from = actualStart start len;
          actualDeleteCount = min deleteCount (len - from)
      in (take actualDeleteCount (drop from arr),
          take from arr @ items @ drop (from + actualDeleteCount) arr))"

text \<open>
  \<^verbatim>\<open>reorderLayers\<close> is the one action whose position loop can meet an element that is
  not a layer: when \<open>fromIndex\<close> is past the end, the first \<^verbatim>\<open>splice\<close> removes nothing,
  \<^verbatim>\<open>removed\<close> is \<^verbatim>\<open>undefined\<close>, the second \<^verbatim>\<open>splice\<close> inserts it, and
  \<^verbatim>\<open>layer.position = ...\<close> throws a TypeError on it. The loop assigns to the layer
  objects themselves, which the copied array shares with the array in the store, so the
  layers visited before the exception keep their new positions although \<^verbatim>\<open>set\<close> is never
  reached. To follow this, the layer objects are addressed by their index in the store's
  array: \<open>objs\<close> is the heap of layer objects, \<open>newLayers\<close> an array of references, with
  \<open>None\<close> for \<^verbatim>\<open>undefined\<close>.
\<close>

datatype 'a outcome = Returned 'a | TypeError 'a

fun forEachPosition ::
  "nat option list \<Rightarrow> nat \<Rightarrow> nat \<Rightarrow> NetworkLayer list \<Rightarrow> NetworkLayer list outcome" where
  "forEachPosition [] index len objs = Returned objs"
| "forEachPosition (None # rest) index len objs = TypeError objs"
| "forEachPosition (Some r # rest) index len objs =
     forEachPosition rest (index + 1) len
       (objs[r := (objs ! r)\<lparr> position := calculateLayerPosition (of_nat index) (of_nat len) \<rparr>])"

text \<open>
  \<open>Returned s\<close>: the action returned and left the store \<open>s\<close>. \<open>TypeError s\<close>: it threw,
  and \<open>s\<close> is the store it left behind. In the \<open>Returned\<close> branch every reference is
  \<open>Some\<close>, so \<open>the\<close> is applied to no \<open>None\<close>.
\<close>

definition reorderLayers ::
  "(nat \<Rightarrow> number) \<Rightarrow> int \<Rightarrow> int \<Rightarrow> NetworkStore \<Rightarrow> NetworkStore outcome" where
  "reorderLayers rnd fromIndex toIndex state =
     (let objs = NetworkStore.layers state;
          newLayers0 = map Some [0 ..< length objs];
          (removedItems, newLayers1) = arraySplice newLayers0 fromIndex 1 [];
          removed = (case removedItems of [] \<Rightarrow> None | r # _ \<Rightarrow> r);
          (_, newLayers) = arraySplice newLayers1 toIndex 0 [removed]
      in case forEachPosition newLayers 0 (length newLayers) objs of
           TypeError objs' \<Rightarrow> TypeError (state\<lparr> NetworkStore.layers := objs' \<rparr>)
         | Returned objs' \<Rightarrow>
             (let result = map (\<lambda>r. objs' ! the r) newLayers
              in Returned (state\<lparr> NetworkStore.layers := result,
                                  connections := generateConnections rnd result \<rparr>)))"

definition clearNetwork :: "NetworkStore \<Rightarrow> NetworkStore" where
  "clearNetwork state =
     state\<lparr> NetworkStore.layers := [], connections := [], currentArchitecture := ''custom'' \<rparr>"

subsection \<open>Training actions\<close>

definition startTraining :: "NetworkStore \<Rightarrow> NetworkStore" where
  "startTraining state = state\<lparr> training := (training state)\<lparr> isTraining := True \<rparr> \<rparr>"

definition stopTraining :: "NetworkStore \<Rightarrow> NetworkStore" where
  "stopTraining state = state\<lparr> training := (training state)\<lparr> isTraining := False \<rparr> \<rparr>"

definition resetTraining :: "NetworkStore \<Rightarrow> NetworkStore" where
  "resetTraining state =
     state\<lparr> training :=
              \<lparr> isTraining = False, currentEpoch = 0, totalEpochs = epochs (config state),
                loss = 0, accuracy = 0, lossHistory = [], accuracyHistory = [] \<rparr> \<rparr>"

definition updateTrainingProgress :: "number \<Rightarrow> number \<Rightarrow> number \<Rightarrow> NetworkStore \<Rightarrow> NetworkStore" where
  "updateTrainingProgress epoch loss' accuracy' state =
     state\<lparr> training :=
              (training state)
                \<lparr> currentEpoch := epoch,
                  loss := loss',
                  accuracy := accuracy',
                  lossHistory := lossHistory (training state) @ [loss'],
                  accuracyHistory := accuracyHistory (training state) @ [accuracy'] \<rparr> \<rparr>"

text \<open>A run of progress ticks, each an (epoch, loss, accuracy) triple, in order.\<close>

definition runProgress :: "NetworkStore \<Rightarrow> (number \<times> number \<times> number) list \<Rightarrow> NetworkStore" where
  "runProgress state ticks =
     foldl (\<lambda>st (epoch, loss', accuracy'). updateTrainingProgress epoch loss' accuracy' st) state ticks"

subsection \<open>Visualization actions\<close>

definition setSelectedLayer :: "string option \<Rightarrow> NetworkStore \<Rightarrow> NetworkStore" where
  "setSelectedLayer layerId state =
     state\<lparr> visualization := (visualization state)\<lparr> selectedLayerId := layerId \<rparr> \<rparr>"

definition setHoveredLayer :: "string option \<Rightarrow> NetworkStore \<Rightarrow> NetworkStore" where
  "setHoveredLayer layerId state =
     state\<lparr> visualization := (visualization state)\<lparr> hoveredLayerId := layerId \<rparr> \<rparr>"

subsection \<open>Computed values\<close>

definition getLayerCount :: "NetworkStore \<Rightarrow> nat" where
  "getLayerCount state = length (NetworkStore.layers state)"

text \<open>
  \<^verbatim>\<open>layer.params.units as number\<close>: the cast checks nothing. Where the value is a number
  the arithmetic below is the source's. Where it is missing or not a number the source goes
  on with \<^verbatim>\<open>NaN\<close> or with string coercion, which this model does not follow: the count
  is then \<open>None\<close>.
\<close>

definition asNumber :: "pvalue option \<Rightarrow> number option" where
  "asNumber v = (case v of Some (Num n) \<Rightarrow> Some n | _ \<Rightarrow> None)"

text \<open>The body of the \<^verbatim>\<open>forEach\<close> in \<^verbatim>\<open>getTotalParameters\<close>, on the pair of the
  two variables \<^verbatim>\<open>total\<close> and \<^verbatim>\<open>prevUnits\<close>.\<close>

fun countLayer :: "(number \<times> number) option \<Rightarrow> NetworkLayer \<Rightarrow> (number \<times> number) option" where
  "countLayer None layer = None"
| "countLayer (Some (total', prevUnits)) layer =
     (case NetworkLayer.type layer of
        Dense \<Rightarrow>
          (case asNumber (NetworkLayer.params layer ''units'') of
             None \<Rightarrow> None
           | Some units \<Rightarrow> Some (total' + (prevUnits * units + units), units))
      | Conv2d \<Rightarrow>
          (case asNumber (NetworkLayer.params layer ''filters'') of
             None \<Rightarrow> None
           | Some filters \<Rightarrow>
               (case asNumber (NetworkLayer.params layer ''kernel_size'') of
                  None \<Rightarrow> None
                | Some kernelSize \<Rightarrow>
                    Some (total' + (kernelSize * kernelSize * prevUnits * filters + filters),
                          filters)))
      | _ \<Rightarrow> Some (total', prevUnits))"

definition getTotalParameters :: "NetworkStore \<Rightarrow> number option" where
  "getTotalParameters state =
     map_option fst (foldl countLayer (Some (0, 784)) (NetworkStore.layers state))"

subsection \<open>Example data\<close>

text \<open>A concrete store for the examples: the initial state, with the four layers of the
  MLP template named \<open>a\<close>, \<open>b\<close>, \<open>c\<close>, \<open>d\<close>.\<close>

definition exampleIds :: "nat \<Rightarrow> string" where
  "exampleIds k = (if k = 0 then ''a'' else if k = 1 then ''b'' else if k = 2 then ''c'' else ''d'')"

text \<open>A fixed stream of random numbers.\<close>

definition exampleRandom :: "nat \<Rightarrow> number" where
  "exampleRandom k = 1 / 2"

definition exampleStore :: NetworkStore where
  "exampleStore = initialState exampleIds exampleRandom"

text \<open>A dense layer with ten units.\<close>

definition exampleDense10 :: NetworkLayer where
  "exampleDense10 =
     \<lparr> NetworkLayer.id = ''out'', NetworkLayer.type = Dense, NetworkLayer.name = ''Dense'',
       NetworkLayer.params = [''units'' \<mapsto> Num 10], position = \<lparr> x = 0, y = 0, z = 0 \<rparr>,
       neurons = Some (Num 10), shape = None \<rparr>"

text \<open>Sixty progress ticks with increasing epoch numbers.\<close>

definition exampleTicks :: "(number \<times> number \<times> number) list" where
  "exampleTicks = map (\<lambda>n. (of_nat n, 1 / of_nat n, 1 - 1 / of_nat n)) [1 ..< 61]"

subsection \<open>The parameter count as the specification words it\<close>

text \<open>
  The walk of the specification: a running width, seeded by the caller; a dense layer adds
  \<open>prevUnits * units + units\<close> and makes \<open>units\<close> the width; a conv2d layer adds
  \<open>kernelSize\<^sup>2 * prevUnits * filters + filters\<close> and makes \<open>filters\<close> the width; any
  other layer adds nothing and keeps the width.
\<close>

fun specTotalParameters :: "number \<Rightarrow> NetworkLayer list \<Rightarrow> number option" where
  "specTotalParameters prevUnits [] = Some 0"
| "specTotalParameters prevUnits (layer # rest) =
     (if NetworkLayer.type layer = Dense then
        (case asNumber (NetworkLayer.params layer ''units'') of
           None \<Rightarrow> None
         | Some units \<Rightarrow>
             map_option (\<lambda>t. (prevUnits * units + units) + t) (specTotalParameters units rest))
      else if NetworkLayer.type layer = Conv2d then
        (case asNumber (NetworkLayer.params layer ''filters'') of
           None \<Rightarrow> None
         | Some filters \<Rightarrow>
             (case asNumber (NetworkLayer.params layer ''kernel_size'') of
                None \<Rightarrow> None
              | Some kernelSize \<Rightarrow>
                  map_option (\<lambda>t. (kernelSize\<^sup>2 * prevUnits * filters + filters) + t)
                    (specTotalParameters filters rest)))
      else specTotalParameters prevUnits rest)"

subsection \<open>The move of \<^verbatim>\<open>reorderLayers\<close> on a list of values\<close>

text \<open>
  The two \<^verbatim>\<open>splice\<close> calls of \<^verbatim>\<open>reorderLayers\<close>, on an array of any values: what
  the first removes is what the second inserts.
\<close>

definition moved :: "'a list \<Rightarrow> int \<Rightarrow> int \<Rightarrow> 'a list" where
  "moved arr fromIndex toIndex =
     (let (removedItems, rest) = arraySplice arr fromIndex 1 []
      in snd (arraySplice rest toIndex 0 removedItems))"

subsection \<open>The derived fields as the specification words them\<close>

text \<open>
  Position symmetry: with \<open>N\<close> layers and spacing 3, the layer at index \<open>i\<close> sits at
  \<open>x = -((N - 1) * 3) / 2 + i * 3\<close>, \<open>y = 0\<close>, \<open>z = 0\<close>.
\<close>

definition positionsCentred :: "NetworkLayer list \<Rightarrow> bool" where
  "positionsCentred ls =
     (\<forall>i \<in> {0 ..< length ls}.
        position (ls ! i) =
          \<lparr> x = - ((of_nat (length ls) - 1) * 3) / 2 + of_nat i * 3, y = 0, z = 0 \<rparr>)"

text \<open>
  Connection derivation: \<open>max 0 (N - 1)\<close> connections, the one at index \<open>i\<close> from layer
  \<open>i\<close> to layer \<open>i + 1\<close>, with the id \<^verbatim>\<open>conn_<fromId>_<toId>\<close>.
\<close>

definition connectionsDerived :: "NetworkLayer list \<Rightarrow> NetworkConnection list \<Rightarrow> bool" where
  "connectionsDerived ls cs =
     (int (length cs) = max 0 (int (length ls) - 1)
      \<and> (\<forall>i \<in> {0 ..< length ls - 1}.
            fromLayerId (cs ! i) = NetworkLayer.id (ls ! i)
            \<and> toLayerId (cs ! i) = NetworkLayer.id (ls ! (i + 1))
            \<and> NetworkConnection.id (cs ! i) =
                ''conn_'' @ NetworkLayer.id (ls ! i) @ ''_'' @ NetworkLayer.id (ls ! (i + 1))))"

section \<open>Properties\<close>

subsection \<open>Tour step\<close>

lemma runTour_step_nonneg:
  "0 \<le> currentTourStep (ui state) \<Longrightarrow> 0 \<le> currentTourStep (ui (runTour state a))"
  by (cases a) (simp_all add: startTour_def nextTourStep_def previousTourStep_def endTour_def)

lemma foldl_runTour_step_nonneg:
  "0 \<le> currentTourStep (ui state) \<Longrightarrow> 0 \<le> currentTourStep (ui (foldl runTour state as))"
  by (induction as arbitrary: state) (simp_all add: runTour_step_nonneg)

text \<open>
  C10. The tour step is never negative: it is 0 in the initial state, and after any sequence
  of \<^verbatim>\<open>startTour\<close>, \<^verbatim>\<open>nextTourStep\<close>, \<^verbatim>\<open>previousTourStep\<close> and \<^verbatim>\<open>endTour\<close>
  calls from there it is at least 0; \<^verbatim>\<open>previousTourStep\<close> at step 0 leaves it at 0.
\<close>

theorem tour_step_never_negative:
  "currentTourStep (ui (initialState gen rnd)) = 0
   \<and> 0 \<le> currentTourStep (ui (foldl runTour (initialState gen rnd) as))
   \<and> currentTourStep (ui (previousTourStep (initialState gen rnd))) = 0
   \<and> currentTourStep (ui (startTour state)) = 0
   \<and> currentTourStep (ui (endTour state)) = 0
   \<and> currentTourStep (ui (nextTourStep state)) = currentTourStep (ui state) + 1"
proof -
  have init: "currentTourStep (ui (initialState gen rnd)) = 0"
    by (simp add: initialState_def)
  have "0 \<le> currentTourStep (ui (foldl runTour (initialState gen rnd) as))"
    by (rule foldl_runTour_step_nonneg) (simp add: init)
  moreover have "currentTourStep (ui (previousTourStep (initialState gen rnd))) = 0"
    by (simp add: previousTourStep_def init)
  ultimately show ?thesis
    by (simp add: init startTour_def endTour_def nextTourStep_def)
qed

subsection \<open>Unknown architecture\<close>

lemma template_ids:
  "map ArchitectureTemplate.id architectureTemplates =
     [''perceptron'', ''mlp'', ''cnn'', ''rnn'', ''autoencoder'', ''transformer'', ''gan'']"
  by (simp add: architectureTemplates_def)

text \<open>
  C5. For an architecture type that is the id of no template in the registry,
  \<^verbatim>\<open>setArchitecture\<close> returns the store it was given: no field changes. The action is a
  total function with no error result, so nothing is raised.
\<close>

theorem setArchitecture_unknown_noop:
  "type' \<notin> set (map ArchitectureTemplate.id architectureTemplates)
   \<Longrightarrow> setArchitecture gen rnd type' state = state"
proof -
  assume "type' \<notin> set (map ArchitectureTemplate.id architectureTemplates)"
  then have "find (\<lambda>t. ArchitectureTemplate.id t = type') architectureTemplates = None"
    by (auto simp: find_None_iff)
  then show ?thesis
    by (simp add: setArchitecture_def)
qed

theorem setArchitecture_unknown_noop_witness:
  "''custom'' \<notin> set (map ArchitectureTemplate.id architectureTemplates)
   \<and> setArchitecture exampleIds (\<lambda>k. 0) ''custom'' exampleStore = exampleStore"
proof -
  have h: "''custom'' \<notin> set (map ArchitectureTemplate.id architectureTemplates)"
    by (simp add: template_ids)
  from setArchitecture_unknown_noop [OF h] h show ?thesis by simp
qed

subsection \<open>Training progress\<close>

lemma runProgress_snoc:
  "runProgress state (ticks @ [(e, l, a)]) = updateTrainingProgress e l a (runProgress state ticks)"
  by (simp add: runProgress_def)

lemma runProgress_histories:
  "lossHistory (training (runProgress state ticks)) =
     lossHistory (training state) @ map (\<lambda>(e, l, a). l) ticks
   \<and> accuracyHistory (training (runProgress state ticks)) =
     accuracyHistory (training state) @ map (\<lambda>(e, l, a). a) ticks
   \<and> totalEpochs (training (runProgress state ticks)) = totalEpochs (training state)
   \<and> isTraining (training (runProgress state ticks)) = isTraining (training state)"
proof (induction ticks rule: rev_induct)
  case Nil
  show ?case by (simp add: runProgress_def)
next
  case (snoc t ticks)
  obtain e l a where t: "t = (e, l, a)" by (cases t)
  from snoc show ?case
    by (simp add: t runProgress_snoc updateTrainingProgress_def)
qed

text \<open>
  C9. \<^verbatim>\<open>updateTrainingProgress\<close> appends one entry to each history and overwrites
  \<^verbatim>\<open>currentEpoch\<close>, \<^verbatim>\<open>loss\<close> and \<^verbatim>\<open>accuracy\<close>, whatever \<^verbatim>\<open>totalEpochs\<close>
  is; \<^verbatim>\<open>resetTraining\<close> sets \<^verbatim>\<open>totalEpochs\<close> to \<^verbatim>\<open>config.epochs\<close> and every other
  training field to zero, empty or false. So after a reset with 50 configured epochs and 60
  progress calls both histories have length 60.
\<close>

theorem training_progress_unclamped:
  "training (updateTrainingProgress epoch l a state) =
     (training state)\<lparr> currentEpoch := epoch, loss := l, accuracy := a,
                       lossHistory := lossHistory (training state) @ [l],
                       accuracyHistory := accuracyHistory (training state) @ [a] \<rparr>
   \<and> length (lossHistory (training (updateTrainingProgress epoch l a state))) =
       length (lossHistory (training state)) + 1
   \<and> length (accuracyHistory (training (updateTrainingProgress epoch l a state))) =
       length (accuracyHistory (training state)) + 1
   \<and> totalEpochs (training (updateTrainingProgress epoch l a state)) = totalEpochs (training state)
   \<and> training (resetTraining state) =
       \<lparr> isTraining = False, currentEpoch = 0, totalEpochs = epochs (config state), loss = 0,
         accuracy = 0, lossHistory = [], accuracyHistory = [] \<rparr>
   \<and> (epochs (config state) = 50 \<and> length ticks = 60 \<longrightarrow>
        length (lossHistory (training (runProgress (resetTraining state) ticks))) = 60
        \<and> length (accuracyHistory (training (runProgress (resetTraining state) ticks))) = 60
        \<and> totalEpochs (training (runProgress (resetTraining state) ticks)) = 50)"
  by (simp add: runProgress_histories) (simp add: updateTrainingProgress_def resetTraining_def)

theorem training_progress_unclamped_witness:
  "epochs (config (exampleStore\<lparr> config := (config exampleStore)\<lparr> epochs := 50 \<rparr> \<rparr>)) = 50
   \<and> length exampleTicks = 60
   \<and> length (lossHistory (training (runProgress
        (resetTraining (exampleStore\<lparr> config := (config exampleStore)\<lparr> epochs := 50 \<rparr> \<rparr>))
        exampleTicks))) = 60
   \<and> totalEpochs (training (runProgress
        (resetTraining (exampleStore\<lparr> config := (config exampleStore)\<lparr> epochs := 50 \<rparr> \<rparr>))
        exampleTicks)) = 50"
proof -
  have h1: "epochs (config (exampleStore\<lparr> config := (config exampleStore)\<lparr> epochs := 50 \<rparr> \<rparr>)) = 50"
    by simp
  have h2: "length exampleTicks = 60"
    by (simp add: exampleTicks_def)
  from training_progress_unclamped
         [of _ _ _ "exampleStore\<lparr> config := (config exampleStore)\<lparr> epochs := 50 \<rparr> \<rparr>" exampleTicks]
       h1 h2
  show ?thesis by blast
qed

subsection \<open>Parameter count\<close>

lemma foldl_countLayer_None: "foldl countLayer None ls = None"
  by (induction ls) simp_all

lemma foldl_countLayer_spec:
  "map_option fst (foldl countLayer (Some (t, p)) ls) =
     map_option (\<lambda>r. t + r) (specTotalParameters p ls)"
proof (induction ls arbitrary: t p)
  case Nil
  show ?case by simp
next
  case (Cons l ls)
  show ?case
  proof (cases "NetworkLayer.type l = Dense")
    case True
    then show ?thesis
      by (cases "asNumber (NetworkLayer.params l ''units'')")
         (simp_all add: foldl_countLayer_None Cons.IH option.map_comp comp_def add.assoc)
  next
    case notDense: False
    show ?thesis
    proof (cases "NetworkLayer.type l = Conv2d")
      case True
      then show ?thesis
        by (cases "asNumber (NetworkLayer.params l ''filters'')";
            cases "asNumber (NetworkLayer.params l ''kernel_size'')")
           (simp_all add: foldl_countLayer_None Cons.IH option.map_comp comp_def add.assoc
              power2_eq_square)
    next
      case False
      with notDense show ?thesis
        by (cases "NetworkLayer.type l") (simp_all add: Cons.IH)
    qed
  qed
qed

text \<open>
  C3. \<^verbatim>\<open>getTotalParameters\<close> is the walk of the specification started with the width
  784: dense layers add \<open>prevUnits * units + units\<close>, conv2d layers add
  \<open>kernel_size\<^sup>2 * prevUnits * filters + filters\<close>, each replacing the width, and every other
  layer type adds nothing and keeps the width. For the single layer dense(units = 10) the
  result is 7850.
\<close>

theorem getTotalParameters_walk:
  "getTotalParameters state = specTotalParameters 784 (NetworkStore.layers state)
   \<and> (NetworkStore.layers state = [layer] \<and> NetworkLayer.type layer = Dense
        \<and> NetworkLayer.params layer ''units'' = Some (Num 10)
      \<longrightarrow> getTotalParameters state = Some 7850)"
proof -
  have walk: "getTotalParameters state = specTotalParameters 784 (NetworkStore.layers state)"
    unfolding getTotalParameters_def
    by (simp add: foldl_countLayer_spec option.map_ident)
  show ?thesis
    by (simp add: walk asNumber_def)
qed

theorem getTotalParameters_walk_witness:
  "NetworkStore.layers (exampleStore\<lparr> NetworkStore.layers := [exampleDense10] \<rparr>) = [exampleDense10]
   \<and> NetworkLayer.type exampleDense10 = Dense
   \<and> NetworkLayer.params exampleDense10 ''units'' = Some (Num 10)
   \<and> getTotalParameters (exampleStore\<lparr> NetworkStore.layers := [exampleDense10] \<rparr>) = Some 7850"
proof -
  have h: "NetworkStore.layers (exampleStore\<lparr> NetworkStore.layers := [exampleDense10] \<rparr>) = [exampleDense10]
           \<and> NetworkLayer.type exampleDense10 = Dense
           \<and> NetworkLayer.params exampleDense10 ''units'' = Some (Num 10)"
    by (simp add: exampleDense10_def)
  from getTotalParameters_walk
         [of "exampleStore\<lparr> NetworkStore.layers := [exampleDense10] \<rparr>" exampleDense10] h
  show ?thesis by blast
qed


subsection \<open>Array splicing and the position loop\<close>

lemma actualStart_le: "actualStart start len \<le> len"
  by (auto simp: actualStart_def)

lemma actualStart_in_range: "0 \<le> i \<Longrightarrow> i < int len \<Longrightarrow> actualStart i len = nat i"
  by (simp add: actualStart_def)

lemma actualStart_in_range_le: "0 \<le> i \<Longrightarrow> i \<le> int len \<Longrightarrow> actualStart i len = nat i"
  by (simp add: actualStart_def)

lemma actualStart_less_iff: "actualStart start len < len \<longleftrightarrow> 0 < len \<and> start < int len"
  by (auto simp: actualStart_def)

lemma splice_remove_one:
  "actualStart start (length arr) < length arr \<Longrightarrow>
   arraySplice arr start 1 [] =
     ([arr ! actualStart start (length arr)],
      take (actualStart start (length arr)) arr @ drop (Suc (actualStart start (length arr))) arr)"
  by (simp add: arraySplice_def Let_def take_Suc_conv_app_nth hd_drop_conv_nth min_def
       Cons_nth_drop_Suc [symmetric])

lemma splice_remove_none:
  "\<not> actualStart start (length arr) < length arr \<Longrightarrow> arraySplice arr start 1 [] = ([], arr)"
  using actualStart_le [of start "length arr"] by (simp add: arraySplice_def Let_def)

lemma splice_insert:
  "arraySplice arr start 0 items =
     ([], take (actualStart start (length arr)) arr @ items @ drop (actualStart start (length arr)) arr)"
  by (simp add: arraySplice_def Let_def)

lemma splice_map:
  "arraySplice (map f arr) start n (map f items) =
     (map f (fst (arraySplice arr start n items)), map f (snd (arraySplice arr start n items)))"
  by (simp add: arraySplice_def Let_def take_map drop_map)

lemma moved_map: "moved (map f arr) fromIndex toIndex = map f (moved arr fromIndex toIndex)"
proof -
  have "arraySplice (map f arr) fromIndex 1 [] =
          (map f (fst (arraySplice arr fromIndex 1 [])), map f (snd (arraySplice arr fromIndex 1 [])))"
    using splice_map [of f arr fromIndex 1 "[]"] by simp
  then show ?thesis
    by (simp add: moved_def split_beta splice_map)
qed

lemma moved_in_range:
  assumes "actualStart fromIndex (length arr) < length arr"
  shows "moved arr fromIndex toIndex =
           (let a = actualStart fromIndex (length arr);
                ys = take a arr @ drop (Suc a) arr;
                b = actualStart toIndex (length ys)
            in take b ys @ [arr ! a] @ drop b ys)"
proof -
  have "arraySplice arr fromIndex 1 [] =
          ([arr ! actualStart fromIndex (length arr)],
           take (actualStart fromIndex (length arr)) arr
             @ drop (Suc (actualStart fromIndex (length arr))) arr)"
    by (rule splice_remove_one [OF assms])
  then show ?thesis
    unfolding moved_def Let_def by (simp only: split_conv splice_insert snd_conv)
qed

lemma moved_out_of_range:
  assumes "\<not> actualStart fromIndex (length arr) < length arr"
  shows "moved arr fromIndex toIndex = arr"
proof -
  have "arraySplice arr fromIndex 1 [] = ([], arr)"
    by (rule splice_remove_none [OF assms])
  then show ?thesis
    unfolding moved_def Let_def by (simp only: split_conv splice_insert snd_conv) simp
qed

lemma mset_moved: "mset (moved arr fromIndex toIndex) = mset arr"
proof (cases "actualStart fromIndex (length arr) < length arr")
  case True
  define a where "a = actualStart fromIndex (length arr)"
  define ys where "ys = take a arr @ drop (Suc a) arr"
  define b where "b = actualStart toIndex (length ys)"
  have "moved arr fromIndex toIndex = take b ys @ [arr ! a] @ drop b ys"
    using moved_in_range [OF True, of toIndex] by (simp only: Let_def a_def ys_def b_def)
  moreover have "mset (take b ys) + mset (drop b ys) = mset ys"
    by (simp flip: mset_append)
  then have "mset (take b ys @ [arr ! a] @ drop b ys) = add_mset (arr ! a) (mset ys)"
    by simp
  moreover have "add_mset (arr ! a) (mset ys) = mset arr"
  proof -
    have "arr = take a arr @ arr ! a # drop (Suc a) arr"
      using True by (simp add: a_def id_take_nth_drop)
    then have "mset arr = mset (take a arr @ arr ! a # drop (Suc a) arr)" by simp
    then show ?thesis by (simp add: ys_def)
  qed
  ultimately show ?thesis by simp
next
  case False
  then show ?thesis by (simp add: moved_out_of_range)
qed

lemma length_moved: "length (moved arr fromIndex toIndex) = length arr"
  using mset_moved [of arr fromIndex toIndex] by (metis size_mset)


lemma length_recalculatePositions [simp]: "length (recalculatePositions ls) = length ls"
  by (simp add: recalculatePositions_def)

lemma nth_recalculatePositions:
  "i < length ls \<Longrightarrow>
   recalculatePositions ls ! i =
     (ls ! i)\<lparr> position := calculateLayerPosition (of_nat i) (of_nat (length ls)) \<rparr>"
  by (simp add: recalculatePositions_def nth_enumerate_eq)

lemma forEachPosition_all_layers:
  assumes "distinct rs" and "\<forall>r \<in> set rs. r < length objs"
  shows "\<exists>objs'. forEachPosition (map Some rs) i len objs = Returned objs'
           \<and> length objs' = length objs
           \<and> (\<forall>k < length rs.
                 objs' ! (rs ! k) =
                   (objs ! (rs ! k))\<lparr> position := calculateLayerPosition (of_nat (i + k)) (of_nat len) \<rparr>)"
  using assms
proof (induction rs arbitrary: i objs)
  case Nil
  show ?case by simp
next
  case (Cons r rs)
  define objs1 where
    "objs1 = objs[r := (objs ! r)\<lparr> position := calculateLayerPosition (of_nat i) (of_nat len) \<rparr>]"
  have r: "r < length objs" "r \<notin> set rs" "distinct rs"
    using Cons.prems by auto
  have bound: "\<forall>q \<in> set rs. q < length objs1"
    using Cons.prems by (simp add: objs1_def)
  from Cons.IH [OF r(3) bound, of "Suc i"]
  obtain objs' where run: "forEachPosition (map Some rs) (Suc i) len objs1 = Returned objs'"
    and len: "length objs' = length objs1"
    and upd: "\<forall>k < length rs. objs' ! (rs ! k) =
        (objs1 ! (rs ! k))\<lparr> position := calculateLayerPosition (of_nat (Suc i + k)) (of_nat len) \<rparr>"
    by blast
  have untouched: "objs' ! r = objs1 ! r"
    using r(2) r(3) bound run
  proof (induction rs arbitrary: i objs1)
    case Nil
    then show ?case by simp
  next
    case (Cons q qs)
    have "q \<noteq> r" using Cons.prems by auto
    from Cons.prems Cons.IH [of "objs1[q := (objs1 ! q)\<lparr> position := calculateLayerPosition (of_nat (Suc i)) (of_nat len) \<rparr>]" "Suc i"]
    show ?case using \<open>q \<noteq> r\<close> by simp
  qed
  have "forEachPosition (map Some (r # rs)) i len objs = Returned objs'"
    using run by (simp add: objs1_def)
  moreover have "length objs' = length objs"
    using len by (simp add: objs1_def)
  moreover have "\<forall>k < length (r # rs). objs' ! ((r # rs) ! k) =
      (objs ! ((r # rs) ! k))\<lparr> position := calculateLayerPosition (of_nat (i + k)) (of_nat len) \<rparr>"
  proof (intro allI impI)
    fix k assume k: "k < length (r # rs)"
    show "objs' ! ((r # rs) ! k) =
      (objs ! ((r # rs) ! k))\<lparr> position := calculateLayerPosition (of_nat (i + k)) (of_nat len) \<rparr>"
    proof (cases k)
      case 0
      then show ?thesis using untouched r(1) by (simp add: objs1_def)
    next
      case (Suc j)
      then have j: "j < length rs" using k by simp
      then have "rs ! j \<noteq> r" using r(2) by (metis nth_mem)
      then have "objs1 ! (rs ! j) = objs ! (rs ! j)" by (simp add: objs1_def)
      with upd j Suc show ?thesis by simp
    qed
  qed
  ultimately show ?case by blast
qed


lemma forEachPosition_undefined:
  "\<exists>objs'. forEachPosition (map Some rs @ None # rest) i len objs = TypeError objs'"
  by (induction rs arbitrary: i objs) simp_all

lemma reorderLayers_in_range:
  assumes inr: "actualStart fromIndex (length (NetworkStore.layers state)) < length (NetworkStore.layers state)"
  shows "reorderLayers rnd fromIndex toIndex state =
           Returned (state\<lparr> NetworkStore.layers :=
                               recalculatePositions (moved (NetworkStore.layers state) fromIndex toIndex),
                             connections :=
                               generateConnections rnd
                                 (recalculatePositions (moved (NetworkStore.layers state) fromIndex toIndex)) \<rparr>)"
proof -
  define objs where "objs = NetworkStore.layers state"
  define idx where "idx = [0 ..< length objs]"
  define a where "a = actualStart fromIndex (length idx)"
  define ys where "ys = take a idx @ drop (Suc a) idx"
  define rs where "rs = moved idx fromIndex toIndex"
  have a: "a < length idx"
    using inr by (simp add: a_def idx_def objs_def)
  have s1: "arraySplice (map Some idx) fromIndex 1 [] = ([Some (idx ! a)], map Some ys)"
    using splice_map [of Some idx fromIndex 1 "[]"] splice_remove_one [of fromIndex idx] a
    by (simp add: a_def ys_def)
  have rs: "rs = snd (arraySplice ys toIndex 0 [idx ! a])"
    using splice_remove_one [of fromIndex idx] a
    by (simp add: rs_def moved_def a_def ys_def)
  have s2: "snd (arraySplice (map Some ys) toIndex 0 [Some (idx ! a)]) = map Some rs"
    using splice_map [of Some ys toIndex 0 "[idx ! a]"] by (simp add: rs)
  have "mset rs = mset idx"
    by (simp add: rs_def mset_moved)
  then have dist: "distinct rs" and "set rs = set idx"
    by (metis distinct_upt idx_def mset_eq_imp_distinct_iff) (metis \<open>mset rs = mset idx\<close> mset_eq_setD)
  then have bound: "\<forall>r \<in> set rs. r < length objs"
    by (simp add: idx_def)
  have lrs: "length rs = length objs"
    by (simp add: rs_def length_moved idx_def)
  from forEachPosition_all_layers [OF dist bound, of 0 "length rs"]
  obtain objs' where run: "forEachPosition (map Some rs) 0 (length rs) objs = Returned objs'"
    and upd: "\<forall>k < length rs. objs' ! (rs ! k) =
        (objs ! (rs ! k))\<lparr> position := calculateLayerPosition (of_nat k) (of_nat (length rs)) \<rparr>"
    by auto
  have "map (\<lambda>r. objs' ! r) rs = recalculatePositions (map (\<lambda>r. objs ! r) rs)"
    by (rule nth_equalityI) (simp_all add: nth_recalculatePositions upd)
  moreover have "map (\<lambda>r. objs ! r) rs = moved objs fromIndex toIndex"
    by (simp add: rs_def idx_def moved_map [symmetric] map_nth)
  ultimately have res: "map (\<lambda>r. objs' ! the r) (map Some rs) =
      recalculatePositions (moved objs fromIndex toIndex)"
    by (simp add: comp_def)
  show ?thesis
    unfolding reorderLayers_def Let_def objs_def [symmetric] idx_def [symmetric]
    by (simp only: s1 split_conv list.case s2) (simp add: run res split_beta s2 del: map_map)
qed

lemma reorderLayers_out_of_range:
  assumes "\<not> actualStart fromIndex (length (NetworkStore.layers state)) < length (NetworkStore.layers state)"
  shows "\<exists>objs'. reorderLayers rnd fromIndex toIndex state =
                   TypeError (state\<lparr> NetworkStore.layers := objs' \<rparr>)"
proof -
  define objs where "objs = NetworkStore.layers state"
  define idx where "idx = [0 ..< length objs]"
  define b where "b = actualStart toIndex (length idx)"
  have s1: "arraySplice (map Some idx) fromIndex 1 [] = ([], map Some idx)"
    using assms by (intro splice_remove_none) (simp add: idx_def objs_def)
  have s2: "snd (arraySplice (map Some idx) toIndex 0 [None]) =
              map Some (take b idx) @ None # map Some (drop b idx)"
    by (simp add: splice_insert b_def take_map drop_map)
  obtain objs' where
    "forEachPosition (map Some (take b idx) @ None # map Some (drop b idx)) 0
       (length (map Some (take b idx) @ None # map Some (drop b idx))) objs = TypeError objs'"
    using forEachPosition_undefined by blast
  then show ?thesis
    unfolding reorderLayers_def Let_def objs_def [symmetric] idx_def [symmetric]
    by (simp only: s1 split_conv list.case) (auto simp: split_beta s2)
qed

subsection \<open>Positions and connections after a change of the layer array\<close>

lemma calculateLayerPosition_eq:
  "calculateLayerPosition i n = \<lparr> x = - ((n - 1) * 3) / 2 + i * 3, y = 0, z = 0 \<rparr>"
  by (simp only: calculateLayerPosition_def Let_def)

lemma positionsCentred_recalculate: "positionsCentred (recalculatePositions ls)"
  by (simp add: positionsCentred_def nth_recalculatePositions calculateLayerPosition_eq)

lemma length_createLayersFromTemplate [simp]:
  "length (createLayersFromTemplate gen template) = length (ArchitectureTemplate.layers template)"
  by (simp add: createLayersFromTemplate_def)

lemma positionsCentred_template: "positionsCentred (createLayersFromTemplate gen template)"
  unfolding positionsCentred_def
proof
  fix i assume "i \<in> {0 ..< length (createLayersFromTemplate gen template)}"
  then have i: "i < length (ArchitectureTemplate.layers template)" by simp
  then show "position (createLayersFromTemplate gen template ! i) =
      \<lparr> x = - ((of_nat (length (createLayersFromTemplate gen template)) - 1) * 3) / 2 + of_nat i * 3,
        y = 0, z = 0 \<rparr>"
    by (simp add: createLayersFromTemplate_def nth_enumerate_eq calculateLayerPosition_eq)
qed

lemma positionsCentred_fixpoint:
  assumes "positionsCentred ls"
  shows "recalculatePositions ls = ls"
proof (rule nth_equalityI)
  show "length (recalculatePositions ls) = length ls" by simp
next
  fix i assume "i < length (recalculatePositions ls)"
  then have i: "i < length ls" by simp
  with assms have "position (ls ! i) = calculateLayerPosition (of_nat i) (of_nat (length ls))"
    by (simp add: positionsCentred_def calculateLayerPosition_eq)
  then show "recalculatePositions ls ! i = ls ! i"
    using i by (simp add: nth_recalculatePositions)
qed

lemma length_generateConnections [simp]:
  "length (generateConnections rnd ls) = length ls - 1"
  by (simp add: generateConnections_def)

lemma connectionsDerived_generate: "connectionsDerived ls (generateConnections rnd ls)"
  unfolding connectionsDerived_def
proof
  show "int (length (generateConnections rnd ls)) = max 0 (int (length ls) - 1)"
    by (cases ls) simp_all
next
  show "\<forall>i \<in> {0 ..< length ls - 1}.
          fromLayerId (generateConnections rnd ls ! i) = NetworkLayer.id (ls ! i)
          \<and> toLayerId (generateConnections rnd ls ! i) = NetworkLayer.id (ls ! (i + 1))
          \<and> NetworkConnection.id (generateConnections rnd ls ! i) =
              ''conn_'' @ NetworkLayer.id (ls ! i) @ ''_'' @ NetworkLayer.id (ls ! (i + 1))"
    by (simp add: generateConnections_def)
qed

lemma find_template:
  assumes "archType \<in> set (map ArchitectureTemplate.id architectureTemplates)"
  shows "\<exists>template. find (\<lambda>t. ArchitectureTemplate.id t = archType) architectureTemplates = Some template"
proof (cases "find (\<lambda>t. ArchitectureTemplate.id t = archType) architectureTemplates")
  case None
  with assms show ?thesis by (auto simp: find_None_iff)
next
  case (Some t)
  then show ?thesis by simp
qed

lemma reorderLayers_Returned_iff:
  "(\<exists>s'. reorderLayers rnd fromIndex toIndex state = Returned s') \<longleftrightarrow>
     actualStart fromIndex (length (NetworkStore.layers state)) < length (NetworkStore.layers state)"
  using reorderLayers_in_range [of fromIndex state rnd toIndex]
        reorderLayers_out_of_range [of fromIndex state rnd toIndex]
  by (cases "actualStart fromIndex (length (NetworkStore.layers state)) < length (NetworkStore.layers state)")
     auto

lemma reorderLayers_Returned_layers:
  assumes "reorderLayers rnd fromIndex toIndex state = Returned s'"
  shows "s' = state\<lparr> NetworkStore.layers :=
                      recalculatePositions (moved (NetworkStore.layers state) fromIndex toIndex),
                    connections :=
                      generateConnections rnd
                        (recalculatePositions (moved (NetworkStore.layers state) fromIndex toIndex)) \<rparr>"
proof -
  have "actualStart fromIndex (length (NetworkStore.layers state)) < length (NetworkStore.layers state)"
    using assms reorderLayers_Returned_iff by blast
  from reorderLayers_in_range [OF this, of rnd toIndex] assms show ?thesis by simp
qed

lemma map_id_recalculatePositions [simp]:
  "map NetworkLayer.id (recalculatePositions ls) = map NetworkLayer.id ls"
  by (rule nth_equalityI) (simp_all add: nth_recalculatePositions)

lemma map_id_position_update:
  "map NetworkLayer.id (objs[r := (objs ! r)\<lparr> position := p \<rparr>]) = map NetworkLayer.id objs"
proof (cases "r < length objs")
  case True
  then show ?thesis
    by (intro nth_equalityI) (auto simp: nth_list_update)
next
  case False
  then have "objs[r := (objs ! r)\<lparr> position := p \<rparr>] = objs"
    by (intro list_update_beyond) simp
  then show ?thesis by (simp only:)
qed

lemma forEachPosition_TypeError_ids:
  "forEachPosition rs i len objs = TypeError objs' \<Longrightarrow>
   map NetworkLayer.id objs' = map NetworkLayer.id objs"
proof (induction rs arbitrary: i objs)
  case Nil
  then show ?case by simp
next
  case (Cons r rs)
  show ?case
  proof (cases r)
    case None
    with Cons.prems show ?thesis by simp
  next
    case (Some k)
    with Cons.prems Cons.IH [of "Suc i" "objs[k := (objs ! k)\<lparr> position := calculateLayerPosition (of_nat i) (of_nat len) \<rparr>]"]
    show ?thesis by (simp add: map_id_position_update)
  qed
qed

lemma reorderLayers_TypeError:
  assumes "reorderLayers rnd fromIndex toIndex state = TypeError s'"
  shows "map NetworkLayer.id (NetworkStore.layers s') = map NetworkLayer.id (NetworkStore.layers state)
         \<and> connections s' = connections state"
proof -
  have "\<exists>newLayers objs'.
          forEachPosition newLayers 0 (length newLayers) (NetworkStore.layers state) = TypeError objs'
          \<and> s' = state\<lparr> NetworkStore.layers := objs' \<rparr>"
    using assms unfolding reorderLayers_def Let_def
    by (auto simp: split_beta split: outcome.splits)
  then obtain newLayers objs' where
    run: "forEachPosition newLayers 0 (length newLayers) (NetworkStore.layers state) = TypeError objs'"
    and s': "s' = state\<lparr> NetworkStore.layers := objs' \<rparr>"
    by blast
  from forEachPosition_TypeError_ids [OF run] show ?thesis
    by (simp add: s')
qed

lemma connectionsDerived_ids:
  assumes "map NetworkLayer.id ls' = map NetworkLayer.id ls"
  shows "connectionsDerived ls' cs = connectionsDerived ls cs"
proof -
  have len: "length ls' = length ls"
    using assms by (metis length_map)
  have "NetworkLayer.id (ls' ! i) = NetworkLayer.id (ls ! i)" if "i < length ls" for i
    using assms that len by (metis nth_map)
  then show ?thesis
    unfolding connectionsDerived_def len by auto
qed

subsection \<open>The example store\<close>

lemma exampleStore_layers:
  "NetworkStore.layers exampleStore = createLayersFromTemplate exampleIds initialTemplate"
  by (simp add: exampleStore_def initialState_def initialLayers_def)

lemma exampleStore_ids: "map NetworkLayer.id (NetworkStore.layers exampleStore) = [''a'', ''b'', ''c'', ''d'']"
  by (simp add: exampleStore_layers initialTemplate_def architectureTemplates_def
        createLayersFromTemplate_def enumerate_eq_zip exampleIds_def upt_rec)

lemma exampleStore_length: "length (NetworkStore.layers exampleStore) = 4"
  using arg_cong [OF exampleStore_ids, of length] by simp

lemma example_addLayer_positions:
  "map (\<lambda>l. x (position l))
     (NetworkStore.layers (addLayer ''e'' exampleRandom Dropout None exampleStore)) = [- 6, - 3, 0, 3, 6]"
  by code_simp

lemma example_addLayer_connections:
  "map NetworkConnection.id (connections (addLayer ''e'' exampleRandom Dropout None exampleStore)) =
     [''conn_a_b'', ''conn_b_c'', ''conn_c_d'', ''conn_d_e'']"
  by code_simp

lemma example_reorder_ids:
  "(case reorderLayers exampleRandom 1 0 exampleStore of
      Returned s' \<Rightarrow> map NetworkLayer.id (NetworkStore.layers s')
    | TypeError s' \<Rightarrow> []) = [''b'', ''a'', ''c'', ''d'']"
  by code_simp

text \<open>
  A \<^verbatim>\<open>fromIndex\<close> past the end: \<^verbatim>\<open>reorderLayers(5, 1)\<close> on the four example layers
  throws. The array in the store keeps its order and the connections are untouched, but the
  layer visited before the \<^verbatim>\<open>undefined\<close> element has the position computed for five
  layers.
\<close>

lemma example_reorder_past_end:
  "(case reorderLayers exampleRandom 5 1 exampleStore of
      Returned s' \<Rightarrow> None
    | TypeError s' \<Rightarrow>
        Some (map NetworkLayer.id (NetworkStore.layers s'),
              map (\<lambda>l. x (position l)) (NetworkStore.layers s'),
              map NetworkConnection.id (connections s'))) =
     Some ([''a'', ''b'', ''c'', ''d''], [- 6, - (3 / 2), 3 / 2, 9 / 2],
           [''conn_a_b'', ''conn_b_c'', ''conn_c_d''])"
  by code_simp

subsection \<open>Position symmetry\<close>

text \<open>
  C1. After \<^verbatim>\<open>addLayer\<close>, \<^verbatim>\<open>removeLayer\<close>, \<^verbatim>\<open>loadTemplate\<close>, a
  \<^verbatim>\<open>setArchitecture\<close> that finds its template, and a \<^verbatim>\<open>reorderLayers\<close> that returns,
  the layer at each index \<open>i\<close> of the \<open>N\<close> layers has \<open>x = -((N - 1) * 3) / 2 + i * 3\<close> and
  \<open>y = z = 0\<close>. A \<^verbatim>\<open>setArchitecture\<close> that finds no template changes nothing, so the
  positions stay as they were. \<^verbatim>\<open>reorderLayers\<close> returns whenever \<open>fromIndex\<close> is within
  \<open>[0, N)\<close>, the range the callers guarantee.
\<close>

theorem positions_after_structural_mutation:
  "positionsCentred (NetworkStore.layers (addLayer newId rnd type' params' state))
   \<and> positionsCentred (NetworkStore.layers (removeLayer rnd layerId state))
   \<and> positionsCentred (NetworkStore.layers (loadTemplate gen rnd template state))
   \<and> (archType \<in> set (map ArchitectureTemplate.id architectureTemplates) \<longrightarrow>
        positionsCentred (NetworkStore.layers (setArchitecture gen rnd archType state)))
   \<and> (positionsCentred (NetworkStore.layers state) \<longrightarrow>
        positionsCentred (NetworkStore.layers (setArchitecture gen rnd archType state)))
   \<and> (0 \<le> fromIndex \<and> fromIndex < int (length (NetworkStore.layers state)) \<longrightarrow>
        (\<exists>s'. reorderLayers rnd fromIndex toIndex state = Returned s'))
   \<and> (\<forall>s'. reorderLayers rnd fromIndex toIndex state = Returned s' \<longrightarrow>
        positionsCentred (NetworkStore.layers s'))"
proof (intro conjI impI allI)
  show "positionsCentred (NetworkStore.layers (addLayer newId rnd type' params' state))"
    by (simp add: addLayer_def Let_def positionsCentred_recalculate)
  show "positionsCentred (NetworkStore.layers (removeLayer rnd layerId state))"
    by (simp add: removeLayer_def Let_def positionsCentred_recalculate)
  show "positionsCentred (NetworkStore.layers (loadTemplate gen rnd template state))"
    by (simp add: loadTemplate_def Let_def positionsCentred_template)
  show "positionsCentred (NetworkStore.layers (setArchitecture gen rnd archType state))"
    if "archType \<in> set (map ArchitectureTemplate.id architectureTemplates)"
    using find_template [OF that]
    by (auto simp: setArchitecture_def Let_def positionsCentred_template)
  show "positionsCentred (NetworkStore.layers (setArchitecture gen rnd archType state))"
    if "positionsCentred (NetworkStore.layers state)"
    using that
    by (simp add: setArchitecture_def Let_def positionsCentred_template split: option.splits)
  show "\<exists>s'. reorderLayers rnd fromIndex toIndex state = Returned s'"
    if "0 \<le> fromIndex \<and> fromIndex < int (length (NetworkStore.layers state))"
    using that by (auto simp: reorderLayers_Returned_iff actualStart_less_iff)
  show "positionsCentred (NetworkStore.layers s')"
    if "reorderLayers rnd fromIndex toIndex state = Returned s'" for s'
    using reorderLayers_Returned_layers [OF that] by (simp add: positionsCentred_recalculate)
qed

theorem positions_after_structural_mutation_witness:
  "''cnn'' \<in> set (map ArchitectureTemplate.id architectureTemplates)
   \<and> positionsCentred (NetworkStore.layers (setArchitecture exampleIds exampleRandom ''cnn'' exampleStore))
   \<and> (0::int) \<le> 1 \<and> 1 < int (length (NetworkStore.layers exampleStore))
   \<and> (\<exists>s'. reorderLayers exampleRandom 1 0 exampleStore = Returned s'
          \<and> positionsCentred (NetworkStore.layers s'))
   \<and> positionsCentred (NetworkStore.layers (addLayer ''e'' exampleRandom Dropout None exampleStore))
   \<and> map (\<lambda>l. x (position l))
        (NetworkStore.layers (addLayer ''e'' exampleRandom Dropout None exampleStore)) = [- 6, - 3, 0, 3, 6]"
proof -
  have h1: "''cnn'' \<in> set (map ArchitectureTemplate.id architectureTemplates)"
    by (simp add: template_ids)
  have h2: "(0::int) \<le> 1 \<and> 1 < int (length (NetworkStore.layers exampleStore))"
    by (simp add: exampleStore_length)
  from positions_after_structural_mutation
         [where state = exampleStore and archType = "''cnn''" and fromIndex = 1 and toIndex = 0
            and gen = exampleIds and rnd = exampleRandom and newId = "''e''" and type' = Dropout
            and params' = None]
       h1 h2 example_addLayer_positions
  show ?thesis by blast
qed

subsection \<open>Connection derivation\<close>

text \<open>
  C2. After the same actions the connection list has \<open>max 0 (N - 1)\<close> elements, and the
  connection at index \<open>i\<close> goes from the layer at index \<open>i\<close> to the layer at index
  \<open>i + 1\<close> and has the id \<^verbatim>\<open>conn_<fromId>_<toId>\<close>. A \<^verbatim>\<open>setArchitecture\<close> that
  finds no template and a \<^verbatim>\<open>reorderLayers\<close> that throws change neither the ids of the
  layers nor the connections, so connections that were derived stay derived.
\<close>

theorem connections_after_structural_mutation:
  "connectionsDerived (NetworkStore.layers (addLayer newId rnd type' params' state))
     (connections (addLayer newId rnd type' params' state))
   \<and> connectionsDerived (NetworkStore.layers (removeLayer rnd layerId state))
       (connections (removeLayer rnd layerId state))
   \<and> connectionsDerived (NetworkStore.layers (loadTemplate gen rnd template state))
       (connections (loadTemplate gen rnd template state))
   \<and> (archType \<in> set (map ArchitectureTemplate.id architectureTemplates) \<longrightarrow>
        connectionsDerived (NetworkStore.layers (setArchitecture gen rnd archType state))
          (connections (setArchitecture gen rnd archType state)))
   \<and> (connectionsDerived (NetworkStore.layers state) (connections state) \<longrightarrow>
        connectionsDerived (NetworkStore.layers (setArchitecture gen rnd archType state))
          (connections (setArchitecture gen rnd archType state)))
   \<and> (0 \<le> fromIndex \<and> fromIndex < int (length (NetworkStore.layers state)) \<longrightarrow>
        (\<exists>s'. reorderLayers rnd fromIndex toIndex state = Returned s'))
   \<and> (\<forall>s'. reorderLayers rnd fromIndex toIndex state = Returned s' \<longrightarrow>
        connectionsDerived (NetworkStore.layers s') (connections s'))
   \<and> (\<forall>s'. reorderLayers rnd fromIndex toIndex state = TypeError s'
          \<and> connectionsDerived (NetworkStore.layers state) (connections state) \<longrightarrow>
        connectionsDerived (NetworkStore.layers s') (connections s'))"
proof (intro conjI impI allI)
  show "connectionsDerived (NetworkStore.layers (addLayer newId rnd type' params' state))
     (connections (addLayer newId rnd type' params' state))"
    by (simp add: addLayer_def Let_def connectionsDerived_generate)
  show "connectionsDerived (NetworkStore.layers (removeLayer rnd layerId state))
       (connections (removeLayer rnd layerId state))"
    by (simp add: removeLayer_def Let_def connectionsDerived_generate)
  show "connectionsDerived (NetworkStore.layers (loadTemplate gen rnd template state))
       (connections (loadTemplate gen rnd template state))"
    by (simp add: loadTemplate_def Let_def connectionsDerived_generate)
  show "connectionsDerived (NetworkStore.layers (setArchitecture gen rnd archType state))
          (connections (setArchitecture gen rnd archType state))"
    if "archType \<in> set (map ArchitectureTemplate.id architectureTemplates)"
    using find_template [OF that]
    by (auto simp: setArchitecture_def Let_def connectionsDerived_generate)
  show "connectionsDerived (NetworkStore.layers (setArchitecture gen rnd archType state))
          (connections (setArchitecture gen rnd archType state))"
    if "connectionsDerived (NetworkStore.layers state) (connections state)"
    using that
    by (simp add: setArchitecture_def Let_def connectionsDerived_generate split: option.splits)
  show "\<exists>s'. reorderLayers rnd fromIndex toIndex state = Returned s'"
    if "0 \<le> fromIndex \<and> fromIndex < int (length (NetworkStore.layers state))"
    using that by (auto simp: reorderLayers_Returned_iff actualStart_less_iff)
  show "connectionsDerived (NetworkStore.layers s') (connections s')"
    if "reorderLayers rnd fromIndex toIndex state = Returned s'" for s'
    using reorderLayers_Returned_layers [OF that] by (simp add: connectionsDerived_generate)
  show "connectionsDerived (NetworkStore.layers s') (connections s')"
    if "reorderLayers rnd fromIndex toIndex state = TypeError s'
          \<and> connectionsDerived (NetworkStore.layers state) (connections state)" for s'
  proof -
    from that reorderLayers_TypeError [of rnd fromIndex toIndex state s']
    have "map NetworkLayer.id (NetworkStore.layers s') = map NetworkLayer.id (NetworkStore.layers state)"
      and "connections s' = connections state"
      by simp_all
    with that connectionsDerived_ids [of "NetworkStore.layers s'" "NetworkStore.layers state"]
    show ?thesis by simp
  qed
qed

theorem connections_after_structural_mutation_witness:
  "''cnn'' \<in> set (map ArchitectureTemplate.id architectureTemplates)
   \<and> connectionsDerived (NetworkStore.layers (setArchitecture exampleIds exampleRandom ''cnn'' exampleStore))
        (connections (setArchitecture exampleIds exampleRandom ''cnn'' exampleStore))
   \<and> (0::int) \<le> 1 \<and> 1 < int (length (NetworkStore.layers exampleStore))
   \<and> (\<exists>s'. reorderLayers exampleRandom 1 0 exampleStore = Returned s'
          \<and> connectionsDerived (NetworkStore.layers s') (connections s'))
   \<and> connectionsDerived (NetworkStore.layers (addLayer ''e'' exampleRandom Dropout None exampleStore))
        (connections (addLayer ''e'' exampleRandom Dropout None exampleStore))
   \<and> map NetworkConnection.id (connections (addLayer ''e'' exampleRandom Dropout None exampleStore)) =
        [''conn_a_b'', ''conn_b_c'', ''conn_c_d'', ''conn_d_e'']"
proof -
  have h1: "''cnn'' \<in> set (map ArchitectureTemplate.id architectureTemplates)"
    by (simp add: template_ids)
  have h2: "(0::int) \<le> 1 \<and> 1 < int (length (NetworkStore.layers exampleStore))"
    by (simp add: exampleStore_length)
  from connections_after_structural_mutation
         [where state = exampleStore and archType = "''cnn''" and fromIndex = 1 and toIndex = 0
            and gen = exampleIds and rnd = exampleRandom and newId = "''e''" and type' = Dropout
            and params' = None]
       h1 h2 example_addLayer_connections
  show ?thesis by blast
qed

subsection \<open>Adding a layer\<close>

lemma length_addLayer:
  "length (NetworkStore.layers (addLayer newId rnd type' params' state)) =
     length (NetworkStore.layers state) + 1"
  by (simp add: addLayer_def Let_def)

lemma last_addLayer:
  "last (NetworkStore.layers (addLayer newId rnd type' params' state)) =
     \<lparr> NetworkLayer.id = newId,
       NetworkLayer.type = type',
       NetworkLayer.name = getLayerName type',
       NetworkLayer.params =
         getDefaultParams type' ++ (case params' of None \<Rightarrow> Map.empty | Some p \<Rightarrow> p),
       position = calculateLayerPosition (of_nat (length (NetworkStore.layers state)))
                    (of_nat (length (NetworkStore.layers state) + 1)),
       neurons = (if type' = Dense
                  then jsOr (case params' of None \<Rightarrow> None | Some p \<Rightarrow> p ''units'') (Some (Num 64))
                  else None),
       shape = None \<rparr>"
proof -
  let ?L = "NetworkStore.layers (addLayer newId rnd type' params' state)"
  have "?L \<noteq> []"
    using length_addLayer [of newId rnd type' params' state] by auto
  then have "last ?L = ?L ! length (NetworkStore.layers state)"
    by (simp add: last_conv_nth length_addLayer)
  then show ?thesis
    by (simp add: addLayer_def Let_def nth_recalculatePositions)
qed

lemma nth_addLayer_old:
  assumes "i < length (NetworkStore.layers state)"
  shows "NetworkStore.layers (addLayer newId rnd type' params' state) ! i =
           (NetworkStore.layers state ! i)
             \<lparr> position := calculateLayerPosition (of_nat i)
                             (of_nat (length (NetworkStore.layers state) + 1)) \<rparr>"
  using assms by (simp add: addLayer_def Let_def nth_recalculatePositions nth_append)

text \<open>
  C4. \<^verbatim>\<open>addLayer(type, params)\<close> makes the layer list one longer; the new last layer has
  the given type and, as parameters, the defaults of the type overridden key by key by
  \<open>params\<close>; the architecture becomes \<^verbatim>\<open>custom\<close>; the layers that were there keep
  their ids, types and parameters. On four layers,
  \<^verbatim>\<open>addLayer('dropout', {rate: 0.3})\<close> gives five layers, the last a dropout layer with
  rate 0.3, and four connections.
\<close>

theorem addLayer_appends:
  "length (NetworkStore.layers (addLayer newId rnd type' params' state)) =
     length (NetworkStore.layers state) + 1
   \<and> NetworkLayer.id (last (NetworkStore.layers (addLayer newId rnd type' params' state))) = newId
   \<and> NetworkLayer.type (last (NetworkStore.layers (addLayer newId rnd type' params' state))) = type'
   \<and> NetworkLayer.params (last (NetworkStore.layers (addLayer newId rnd type' params' state))) =
       getDefaultParams type' ++ (case params' of None \<Rightarrow> Map.empty | Some p \<Rightarrow> p)
   \<and> (\<forall>key. NetworkLayer.params (last (NetworkStore.layers (addLayer newId rnd type' params' state))) key =
         (case (case params' of None \<Rightarrow> None | Some p \<Rightarrow> p key) of
            Some v \<Rightarrow> Some v
          | None \<Rightarrow> getDefaultParams type' key))
   \<and> currentArchitecture (addLayer newId rnd type' params' state) = ''custom''
   \<and> (\<forall>i \<in> {0 ..< length (NetworkStore.layers state)}.
         NetworkLayer.id (NetworkStore.layers (addLayer newId rnd type' params' state) ! i) =
           NetworkLayer.id (NetworkStore.layers state ! i)
         \<and> NetworkLayer.type (NetworkStore.layers (addLayer newId rnd type' params' state) ! i) =
           NetworkLayer.type (NetworkStore.layers state ! i)
         \<and> NetworkLayer.params (NetworkStore.layers (addLayer newId rnd type' params' state) ! i) =
           NetworkLayer.params (NetworkStore.layers state ! i))
   \<and> (length (NetworkStore.layers state) = 4 \<and> type' = Dropout
        \<and> params' = Some [''rate'' \<mapsto> Num (3 / 10)] \<longrightarrow>
        length (NetworkStore.layers (addLayer newId rnd type' params' state)) = 5
        \<and> NetworkLayer.type (last (NetworkStore.layers (addLayer newId rnd type' params' state))) = Dropout
        \<and> NetworkLayer.params (last (NetworkStore.layers (addLayer newId rnd type' params' state))) ''rate'' =
            Some (Num (3 / 10))
        \<and> length (connections (addLayer newId rnd type' params' state)) = 4)"
proof (intro conjI allI ballI impI)
  show "length (NetworkStore.layers (addLayer newId rnd type' params' state)) =
     length (NetworkStore.layers state) + 1"
    by (rule length_addLayer)
  show "currentArchitecture (addLayer newId rnd type' params' state) = ''custom''"
    by (simp add: addLayer_def Let_def)
  show "NetworkLayer.params (last (NetworkStore.layers (addLayer newId rnd type' params' state))) key =
         (case (case params' of None \<Rightarrow> None | Some p \<Rightarrow> p key) of
            Some v \<Rightarrow> Some v
          | None \<Rightarrow> getDefaultParams type' key)" for key
    by (simp add: last_addLayer map_add_def split: option.splits)
  show "length (connections (addLayer newId rnd type' params' state)) = 4"
    if "length (NetworkStore.layers state) = 4 \<and> type' = Dropout
        \<and> params' = Some [''rate'' \<mapsto> Num (3 / 10)]"
    using that by (simp add: addLayer_def Let_def)
qed (simp_all add: last_addLayer length_addLayer nth_addLayer_old)

theorem addLayer_appends_witness:
  "length (NetworkStore.layers exampleStore) = 4
   \<and> length (NetworkStore.layers
        (addLayer ''e'' exampleRandom Dropout (Some [''rate'' \<mapsto> Num (3 / 10)]) exampleStore)) = 5
   \<and> NetworkLayer.type (last (NetworkStore.layers
        (addLayer ''e'' exampleRandom Dropout (Some [''rate'' \<mapsto> Num (3 / 10)]) exampleStore))) = Dropout
   \<and> NetworkLayer.params (last (NetworkStore.layers
        (addLayer ''e'' exampleRandom Dropout (Some [''rate'' \<mapsto> Num (3 / 10)]) exampleStore))) ''rate'' =
       Some (Num (3 / 10))
   \<and> length (connections
        (addLayer ''e'' exampleRandom Dropout (Some [''rate'' \<mapsto> Num (3 / 10)]) exampleStore)) = 4
   \<and> currentArchitecture
        (addLayer ''e'' exampleRandom Dropout (Some [''rate'' \<mapsto> Num (3 / 10)]) exampleStore) = ''custom''"
proof -
  have h: "length (NetworkStore.layers exampleStore) = 4"
    by (rule exampleStore_length)
  from addLayer_appends
         [of "''e''" exampleRandom Dropout "Some [''rate'' \<mapsto> Num (3 / 10)]" exampleStore] h
  show ?thesis by blast
qed

subsection \<open>Updating layer parameters\<close>

lemma updateLayerParams_layer:
  "NetworkStore.layers (updateLayerParams layerId params' state) =
     map (\<lambda>layer. if NetworkLayer.id layer = layerId
                   then layer\<lparr> NetworkLayer.params := NetworkLayer.params layer ++ params',
                               neurons := (if truthy (params' ''units'') then params' ''units''
                                           else neurons layer) \<rparr>
                   else layer)
         (NetworkStore.layers state)"
  by (simp add: updateLayerParams_def jsOr_def)

text \<open>
  The merge is shallow and key by key; \<^verbatim>\<open>neurons\<close> follows \<^verbatim>\<open>params.units\<close> only
  when that value is truthy.
\<close>

lemma updateLayerParams_merge:
  assumes "i < length (NetworkStore.layers state)"
    and "NetworkLayer.id (NetworkStore.layers state ! i) = layerId"
  shows "NetworkLayer.params (NetworkStore.layers (updateLayerParams layerId params' state) ! i) key =
           (case params' key of Some v \<Rightarrow> Some v
            | None \<Rightarrow> NetworkLayer.params (NetworkStore.layers state ! i) key)"
    and "truthy (params' ''units'') \<Longrightarrow>
           neurons (NetworkStore.layers (updateLayerParams layerId params' state) ! i) = params' ''units''"
    and "\<not> truthy (params' ''units'') \<Longrightarrow>
           neurons (NetworkStore.layers (updateLayerParams layerId params' state) ! i) =
             neurons (NetworkStore.layers state ! i)"
  using assms by (simp_all add: updateLayerParams_layer map_add_def split: option.splits)

text \<open>The update of the specification: \<^verbatim>\<open>{units: 128}\<close> on the layer \<open>b\<close>, which has
  \<^verbatim>\<open>{units: 64, activation: 'relu'}\<close>.\<close>

lemma updateLayerParams_example:
  "NetworkLayer.params
        (NetworkStore.layers (updateLayerParams ''b'' [''units'' \<mapsto> Num 128] exampleStore) ! 1) ''units'' =
       Some (Num 128)
   \<and> NetworkLayer.params
        (NetworkStore.layers (updateLayerParams ''b'' [''units'' \<mapsto> Num 128] exampleStore) ! 1) ''activation'' =
       Some (Str ''relu'')
   \<and> neurons (NetworkStore.layers (updateLayerParams ''b'' [''units'' \<mapsto> Num 128] exampleStore) ! 1) =
       Some (Num 128)"
  by (simp add: updateLayerParams_layer exampleStore_layers initialTemplate_def
        architectureTemplates_def createLayersFromTemplate_def enumerate_eq_zip exampleIds_def upt_rec)

text \<open>
  C7. The update \<^verbatim>\<open>{units: 0}\<close> on the same layer: the parameter map is merged,
  \<^verbatim>\<open>units\<close> is 0 and \<^verbatim>\<open>activation\<close> survives, but \<^verbatim>\<open>neurons\<close> is not
  refreshed to 0: \<^verbatim>\<open>params.units || layer.neurons\<close> takes 0 for an absent value and
  keeps the old 64.
\<close>

theorem updateLayerParams_units_zero:
  "NetworkLayer.id (NetworkStore.layers exampleStore ! 1) = ''b''
   \<and> neurons (NetworkStore.layers exampleStore ! 1) = Some (Num 64)
   \<and> NetworkLayer.params
        (NetworkStore.layers (updateLayerParams ''b'' [''units'' \<mapsto> Num 0] exampleStore) ! 1) ''units'' =
       Some (Num 0)
   \<and> NetworkLayer.params
        (NetworkStore.layers (updateLayerParams ''b'' [''units'' \<mapsto> Num 0] exampleStore) ! 1) ''activation'' =
       Some (Str ''relu'')
   \<and> neurons (NetworkStore.layers (updateLayerParams ''b'' [''units'' \<mapsto> Num 0] exampleStore) ! 1) =
       Some (Num 64)"
  by (simp add: updateLayerParams_layer exampleStore_layers initialTemplate_def
        architectureTemplates_def createLayersFromTemplate_def enumerate_eq_zip exampleIds_def upt_rec)

subsection \<open>Selected and hovered layer\<close>

lemma ids_removeLayer:
  "set (map NetworkLayer.id (NetworkStore.layers (removeLayer rnd layerId state))) =
     set (map NetworkLayer.id (NetworkStore.layers state)) - {layerId}"
  by (auto simp: removeLayer_def Let_def)

text \<open>
  C6, as claimed, fails: select layer \<open>b\<close>, then remove it. The selection still names
  \<open>b\<close>, which is no longer the id of any layer.
\<close>

theorem stale_selection_counterexample:
  "''b'' \<in> set (map NetworkLayer.id (NetworkStore.layers (setSelectedLayer (Some ''b'') exampleStore)))
   \<and> selectedLayerId (visualization (setSelectedLayer (Some ''b'') exampleStore)) = Some ''b''
   \<and> selectedLayerId (visualization
        (removeLayer exampleRandom ''b'' (setSelectedLayer (Some ''b'') exampleStore))) = Some ''b''
   \<and> ''b'' \<notin> set (map NetworkLayer.id (NetworkStore.layers
        (removeLayer exampleRandom ''b'' (setSelectedLayer (Some ''b'') exampleStore))))"
proof -
  have "NetworkStore.layers (setSelectedLayer (Some ''b'') exampleStore) = NetworkStore.layers exampleStore"
    by (simp add: setSelectedLayer_def)
  then have present: "''b'' \<in> set (map NetworkLayer.id (NetworkStore.layers (setSelectedLayer (Some ''b'') exampleStore)))"
    by (simp only: exampleStore_ids) simp
  have absent: "''b'' \<notin> set (map NetworkLayer.id (NetworkStore.layers
        (removeLayer exampleRandom ''b'' (setSelectedLayer (Some ''b'') exampleStore))))"
    by (simp only: ids_removeLayer) simp
  have kept: "selectedLayerId (visualization
        (removeLayer exampleRandom ''b'' (setSelectedLayer (Some ''b'') exampleStore))) = Some ''b''"
    by (simp add: setSelectedLayer_def removeLayer_def Let_def)
  have "selectedLayerId (visualization (setSelectedLayer (Some ''b'') exampleStore)) = Some ''b''"
    by (simp add: setSelectedLayer_def)
  with present absent kept show ?thesis by blast
qed

text \<open>
  C6, amended. \<^verbatim>\<open>setSelectedLayer\<close> and \<^verbatim>\<open>setHoveredLayer\<close> store the id they are
  given and touch no layer; \<^verbatim>\<open>removeLayer\<close> leaves the whole visualization state as it
  was and removes exactly the layers with the given id. So a selected or hovered id that named
  a present layer other than the removed one still names a present layer afterwards.
\<close>

theorem removeLayer_keeps_selection:
  "visualization (removeLayer rnd layerId state) = visualization state
   \<and> set (map NetworkLayer.id (NetworkStore.layers (removeLayer rnd layerId state))) =
       set (map NetworkLayer.id (NetworkStore.layers state)) - {layerId}
   \<and> (selectedLayerId (visualization state) = Some sel
        \<and> sel \<in> set (map NetworkLayer.id (NetworkStore.layers state)) \<and> sel \<noteq> layerId \<longrightarrow>
        selectedLayerId (visualization (removeLayer rnd layerId state)) = Some sel
        \<and> sel \<in> set (map NetworkLayer.id (NetworkStore.layers (removeLayer rnd layerId state))))
   \<and> (hoveredLayerId (visualization state) = Some hov
        \<and> hov \<in> set (map NetworkLayer.id (NetworkStore.layers state)) \<and> hov \<noteq> layerId \<longrightarrow>
        hoveredLayerId (visualization (removeLayer rnd layerId state)) = Some hov
        \<and> hov \<in> set (map NetworkLayer.id (NetworkStore.layers (removeLayer rnd layerId state))))
   \<and> selectedLayerId (visualization (setSelectedLayer v state)) = v
   \<and> hoveredLayerId (visualization (setHoveredLayer v state)) = v
   \<and> NetworkStore.layers (setSelectedLayer v state) = NetworkStore.layers state
   \<and> NetworkStore.layers (setHoveredLayer v state) = NetworkStore.layers state"
proof -
  have vis: "visualization (removeLayer rnd layerId state) = visualization state"
    by (simp add: removeLayer_def Let_def)
  show ?thesis
    by (simp add: vis ids_removeLayer del: set_map) (simp add: setSelectedLayer_def setHoveredLayer_def)
qed

theorem removeLayer_keeps_selection_witness:
  "selectedLayerId (visualization (setSelectedLayer (Some ''c'') exampleStore)) = Some ''c''
   \<and> ''c'' \<in> set (map NetworkLayer.id (NetworkStore.layers (setSelectedLayer (Some ''c'') exampleStore)))
   \<and> ''c'' \<noteq> ''b''
   \<and> selectedLayerId (visualization
        (removeLayer exampleRandom ''b'' (setSelectedLayer (Some ''c'') exampleStore))) = Some ''c''
   \<and> ''c'' \<in> set (map NetworkLayer.id (NetworkStore.layers
        (removeLayer exampleRandom ''b'' (setSelectedLayer (Some ''c'') exampleStore))))"
proof -
  have h: "selectedLayerId (visualization (setSelectedLayer (Some ''c'') exampleStore)) = Some ''c''
           \<and> ''c'' \<in> set (map NetworkLayer.id (NetworkStore.layers (setSelectedLayer (Some ''c'') exampleStore)))
           \<and> ''c'' \<noteq> ''b''"
    by (simp add: setSelectedLayer_def exampleStore_ids del: set_map)
  from removeLayer_keeps_selection
         [of exampleRandom "''b''" "setSelectedLayer (Some ''c'') exampleStore" "''c''"] h
  show ?thesis by blast
qed

subsection \<open>Reordering\<close>

lemma moved_at:
  assumes "actualStart fromIndex (length arr) = a" and "a < length arr"
    and "ys = take a arr @ drop (Suc a) arr" and "actualStart toIndex (length ys) = b"
  shows "moved arr fromIndex toIndex = take b ys @ [arr ! a] @ drop b ys"
proof -
  have "actualStart fromIndex (length arr) < length arr"
    using assms by simp
  from moved_in_range [OF this, of toIndex] show ?thesis
    by (simp only: Let_def assms(1) assms(3) [symmetric] assms(4))
qed

lemma moved_round_trip:
  assumes "0 \<le> i" "i < int (length xs)" "0 \<le> j" "j < int (length xs)"
  shows "moved (moved xs i j) j i = xs"
proof -
  define a where "a = nat i"
  define b where "b = nat j"
  define ys where "ys = take a xs @ drop (Suc a) xs"
  define m where "m = take b ys @ [xs ! a] @ drop b ys"
  have a: "a < length xs" and b: "b < length xs"
    using assms by (simp_all add: a_def b_def)
  have lys: "length ys = length xs - 1"
    using a by (simp add: ys_def)
  have bys: "b \<le> length ys" and ays: "a \<le> length ys"
    using a b lys by simp_all
  have sa: "actualStart i (length xs) = a"
    using assms by (simp add: actualStart_in_range a_def)
  have sb: "actualStart j (length ys) = b"
    using assms bys by (intro actualStart_in_range_le [of j "length ys", folded b_def]) (simp_all add: b_def)
  have first: "moved xs i j = m"
    unfolding m_def by (rule moved_at [OF sa a ys_def sb])
  have lm: "length m = length xs"
    using first length_moved [of xs i j] by simp
  have sb': "actualStart j (length m) = b"
    using assms by (simp add: lm actualStart_in_range b_def)
  have mb: "m ! b = xs ! a"
    using bys by (simp add: m_def nth_append)
  have rest: "take b m @ drop (Suc b) m = ys"
    using bys by (simp add: m_def)
  have sa': "actualStart i (length ys) = a"
    using assms ays by (intro actualStart_in_range_le [of i "length ys", folded a_def]) (simp_all add: a_def)
  have "moved m j i = take a (take b m @ drop (Suc b) m) @ [m ! b] @ drop a (take b m @ drop (Suc b) m)"
    by (rule moved_at [OF sb' _ refl]) (simp_all add: lm b rest sa')
  then have "moved m j i = take a ys @ [xs ! a] @ drop a ys"
    by (simp only: rest mb)
  also have "take a ys = take a xs"
    using a by (simp add: ys_def)
  also have "drop a ys = drop (Suc a) xs"
    using a by (simp add: ys_def)
  also have "take a xs @ [xs ! a] @ drop (Suc a) xs = xs"
    using a by (simp add: id_take_nth_drop [symmetric])
  finally show ?thesis
    by (simp add: first)
qed

lemma recalculatePositions_cong:
  assumes "map (\<lambda>l. l\<lparr> position := p \<rparr>) xs = map (\<lambda>l. l\<lparr> position := p \<rparr>) ys"
  shows "recalculatePositions xs = recalculatePositions ys"
proof (rule nth_equalityI)
  have len: "length xs = length ys"
    using assms by (metis length_map)
  then show "length (recalculatePositions xs) = length (recalculatePositions ys)" by simp
  fix i assume "i < length (recalculatePositions xs)"
  then have i: "i < length xs" "i < length ys" using len by simp_all
  have "(xs ! i)\<lparr> position := p \<rparr> = (ys ! i)\<lparr> position := p \<rparr>"
    using assms i by (metis nth_map)
  then have "(xs ! i)\<lparr> position := p, position := q \<rparr> = (ys ! i)\<lparr> position := p, position := q \<rparr>" for q
    by simp
  then have "(xs ! i)\<lparr> position := q \<rparr> = (ys ! i)\<lparr> position := q \<rparr>" for q
    by simp
  then show "recalculatePositions xs ! i = recalculatePositions ys ! i"
    using i len by (simp add: nth_recalculatePositions)
qed

lemma map_clear_recalculatePositions:
  "map (\<lambda>l. l\<lparr> position := p \<rparr>) (recalculatePositions xs) = map (\<lambda>l. l\<lparr> position := p \<rparr>) xs"
  by (rule nth_equalityI) (simp_all add: nth_recalculatePositions)

lemma recalculate_moved_recalculate:
  "recalculatePositions (moved (recalculatePositions xs) fromIndex toIndex) =
     recalculatePositions (moved xs fromIndex toIndex)"
proof (rule recalculatePositions_cong [where p = "\<lparr> x = 0, y = 0, z = 0 \<rparr>"])
  show "map (\<lambda>l. l\<lparr> position := \<lparr> x = 0, y = 0, z = 0 \<rparr> \<rparr>) (moved (recalculatePositions xs) fromIndex toIndex) =
        map (\<lambda>l. l\<lparr> position := \<lparr> x = 0, y = 0, z = 0 \<rparr> \<rparr>) (moved xs fromIndex toIndex)"
    by (simp only: moved_map [symmetric] map_clear_recalculatePositions)
qed

lemma reorderLayers_architecture:
  "(case reorderLayers rnd fromIndex toIndex state of
      Returned s' \<Rightarrow> currentArchitecture s'
    | TypeError s' \<Rightarrow> currentArchitecture s') = currentArchitecture state"
proof (cases "actualStart fromIndex (length (NetworkStore.layers state)) < length (NetworkStore.layers state)")
  case True
  then show ?thesis by (simp add: reorderLayers_in_range)
next
  case False
  from reorderLayers_out_of_range [OF this, of rnd toIndex] show ?thesis by auto
qed

text \<open>
  C8. \<^verbatim>\<open>reorderLayers\<close> never changes \<^verbatim>\<open>currentArchitecture\<close>. For indices \<open>i\<close>,
  \<open>j\<close> within \<open>[0, N)\<close>, adjacent or not, \<^verbatim>\<open>reorderLayers(i, j)\<close> followed by
  \<^verbatim>\<open>reorderLayers(j, i)\<close> returns both times and leaves the layers in their original
  order: the list is the original one with its positions recomputed, hence the original list
  itself when its positions were the centred ones.
\<close>

theorem reorderLayers_round_trip:
  "(case reorderLayers rnd fromIndex toIndex state of
      Returned s' \<Rightarrow> currentArchitecture s'
    | TypeError s' \<Rightarrow> currentArchitecture s') = currentArchitecture state
   \<and> (0 \<le> i \<and> i < int (length (NetworkStore.layers state))
        \<and> 0 \<le> j \<and> j < int (length (NetworkStore.layers state)) \<longrightarrow>
       (\<exists>s1 s2. reorderLayers rnd i j state = Returned s1
          \<and> reorderLayers rnd' j i s1 = Returned s2
          \<and> NetworkStore.layers s2 = recalculatePositions (NetworkStore.layers state)
          \<and> map NetworkLayer.id (NetworkStore.layers s2) = map NetworkLayer.id (NetworkStore.layers state)
          \<and> (positionsCentred (NetworkStore.layers state) \<longrightarrow>
                NetworkStore.layers s2 = NetworkStore.layers state)
          \<and> currentArchitecture s1 = currentArchitecture state
          \<and> currentArchitecture s2 = currentArchitecture state))"
proof (intro conjI impI)
  show "(case reorderLayers rnd fromIndex toIndex state of
      Returned s' \<Rightarrow> currentArchitecture s'
    | TypeError s' \<Rightarrow> currentArchitecture s') = currentArchitecture state"
    by (rule reorderLayers_architecture)
next
  assume valid: "0 \<le> i \<and> i < int (length (NetworkStore.layers state))
        \<and> 0 \<le> j \<and> j < int (length (NetworkStore.layers state))"
  define L where "L = NetworkStore.layers state"
  define L1 where "L1 = recalculatePositions (moved L i j)"
  define s1 where "s1 = state\<lparr> NetworkStore.layers := L1, connections := generateConnections rnd L1 \<rparr>"
  define L2 where "L2 = recalculatePositions (moved L1 j i)"
  define s2 where "s2 = s1\<lparr> NetworkStore.layers := L2, connections := generateConnections rnd' L2 \<rparr>"
  have i: "actualStart i (length L) < length L" and j: "actualStart j (length L) < length L"
    using valid by (auto simp: actualStart_less_iff L_def)
  have step1: "reorderLayers rnd i j state = Returned s1"
    using reorderLayers_in_range [of i state rnd j] i by (simp add: L_def s1_def L1_def)
  have len1: "length (NetworkStore.layers s1) = length L"
    by (simp add: s1_def L1_def length_moved)
  have step2: "reorderLayers rnd' j i s1 = Returned s2"
    using reorderLayers_in_range [of j s1 rnd' i] j len1
    by (simp add: s2_def L2_def) (simp add: s1_def)
  have "L2 = recalculatePositions (moved (moved L i j) j i)"
    by (simp add: L2_def L1_def recalculate_moved_recalculate)
  also have "moved (moved L i j) j i = L"
    using valid by (intro moved_round_trip) (simp_all add: L_def)
  finally have restored: "NetworkStore.layers s2 = recalculatePositions L"
    by (simp add: s2_def)
  have "map NetworkLayer.id (NetworkStore.layers s2) = map NetworkLayer.id L"
    by (simp add: restored)
  moreover have "positionsCentred L \<longrightarrow> NetworkStore.layers s2 = L"
    by (simp add: restored positionsCentred_fixpoint)
  moreover have "currentArchitecture s1 = currentArchitecture state"
    "currentArchitecture s2 = currentArchitecture state"
    by (simp_all add: s1_def s2_def)
  ultimately show "\<exists>s1 s2. reorderLayers rnd i j state = Returned s1
          \<and> reorderLayers rnd' j i s1 = Returned s2
          \<and> NetworkStore.layers s2 = recalculatePositions (NetworkStore.layers state)
          \<and> map NetworkLayer.id (NetworkStore.layers s2) = map NetworkLayer.id (NetworkStore.layers state)
          \<and> (positionsCentred (NetworkStore.layers state) \<longrightarrow>
                NetworkStore.layers s2 = NetworkStore.layers state)
          \<and> currentArchitecture s1 = currentArchitecture state
          \<and> currentArchitecture s2 = currentArchitecture state"
    using step1 step2 restored unfolding L_def by blast
qed

theorem reorderLayers_round_trip_witness:
  "(0::int) \<le> 1 \<and> 1 < int (length (NetworkStore.layers exampleStore))
   \<and> (0::int) \<le> 0 \<and> 0 < int (length (NetworkStore.layers exampleStore))
   \<and> (\<exists>s1 s2. reorderLayers exampleRandom 1 0 exampleStore = Returned s1
         \<and> map NetworkLayer.id (NetworkStore.layers s1) = [''b'', ''a'', ''c'', ''d'']
         \<and> reorderLayers exampleRandom 0 1 s1 = Returned s2
         \<and> map NetworkLayer.id (NetworkStore.layers s2) = [''a'', ''b'', ''c'', ''d'']
         \<and> currentArchitecture s2 = ''mlp'')"
proof -
  have h: "(0::int) \<le> 1 \<and> 1 < int (length (NetworkStore.layers exampleStore))
           \<and> (0::int) \<le> 0 \<and> 0 < int (length (NetworkStore.layers exampleStore))"
    by (simp add: exampleStore_length)
  have arch: "currentArchitecture exampleStore = ''mlp''"
    by (simp add: exampleStore_def initialState_def)
  from reorderLayers_round_trip
         [where state = exampleStore and i = 1 and j = 0 and rnd = exampleRandom
            and rnd' = exampleRandom] h
  obtain s1 s2 where steps: "reorderLayers exampleRandom 1 0 exampleStore = Returned s1"
      "reorderLayers exampleRandom 0 1 s1 = Returned s2"
      "map NetworkLayer.id (NetworkStore.layers s2) = map NetworkLayer.id (NetworkStore.layers exampleStore)"
      "currentArchitecture s2 = currentArchitecture exampleStore"
    by blast
  have "map NetworkLayer.id (NetworkStore.layers s1) = [''b'', ''a'', ''c'', ''d'']"
    using example_reorder_ids steps(1) by simp
  with steps arch have "\<exists>s1 s2. reorderLayers exampleRandom 1 0 exampleStore = Returned s1
         \<and> map NetworkLayer.id (NetworkStore.layers s1) = [''b'', ''a'', ''c'', ''d'']
         \<and> reorderLayers exampleRandom 0 1 s1 = Returned s2
         \<and> map NetworkLayer.id (NetworkStore.layers s2) = [''a'', ''b'', ''c'', ''d'']
         \<and> currentArchitecture s2 = ''mlp''"
    by (intro exI [of _ s1] exI [of _ s2]) (simp add: exampleStore_ids)
  with h show ?thesis by blast
qed


end
